theory Spec2Isabelle
  imports Complex_Main "HOL-Library.AList" "HOL-Library.Multiset"
begin

text \<open>
  A shallow embedding of the research agent: the memory store (memory.ts), the history
  compressor (compress.ts) and the tool gateway and orchestration loop (agent.ts), over the
  data model of types.ts. The reasoning engine, the search and extraction back ends, the
  summarizer, the export and the clock are parameters; thrown errors are values; the
  memory file is passed in and returned.
\<close>

section \<open>Strings and built-ins of the runtime\<close>

text \<open>
  A JavaScript string is a sequence of UTF-16 code units, and \<open>length\<close>, \<open>slice\<close> and the
  regular expressions of the sources count code units. A string is therefore a list of code
  units (natural numbers below 65536); \<open>ascii\<close> embeds an ASCII literal.
\<close>

type_synonym jstring = "nat list"

definition ascii :: "string \<Rightarrow> jstring" where
  "ascii s = map of_char s"

text \<open>Decimal rendering of a non-negative integer, as a template literal renders it.\<close>

fun show_nat :: "nat \<Rightarrow> jstring" where
  "show_nat n = (if n < 10 then [48 + n] else show_nat (n div 10) @ [48 + n mod 10])"

declare show_nat.simps [simp del]

text \<open>\<open>Array.prototype.join\<close>.\<close>

fun join :: "jstring \<Rightarrow> jstring list \<Rightarrow> jstring" where
  "join sep [] = []"
| "join sep [x] = x"
| "join sep (x # y # ys) = x @ sep @ join sep (y # ys)"

text \<open>
  \<open>slice(start, end)\<close> and \<open>slice(start)\<close> of arrays and strings: a negative index counts
  from the end, and both indices are clamped to the length.
\<close>

definition js_slice :: "int \<Rightarrow> int \<Rightarrow> 'a list \<Rightarrow> 'a list" where
  "js_slice start stop xs =
     (let len = int (length xs);
          k = (if start < 0 then max (len + start) 0 else min start len);
          final = (if stop < 0 then max (len + stop) 0 else min stop len)
      in take (nat (final - k)) (drop (nat k) xs))"

definition js_slice_from :: "int \<Rightarrow> 'a list \<Rightarrow> 'a list" where
  "js_slice_from start xs = js_slice start (int (length xs)) xs"

text \<open>White space as \<open>\s\<close> and \<open>trim\<close> see it.\<close>

definition js_ws :: "nat \<Rightarrow> bool" where
  "js_ws c \<longleftrightarrow> (9 \<le> c \<and> c \<le> 13) \<or> c = 32 \<or> c = 160 \<or> c = 5760 \<or> (8192 \<le> c \<and> c \<le> 8202)
     \<or> c = 8232 \<or> c = 8233 \<or> c = 8239 \<or> c = 8287 \<or> c = 12288 \<or> c = 65279"

definition trim :: "jstring \<Rightarrow> jstring" where
  "trim s = rev (dropWhile js_ws (rev (dropWhile js_ws s)))"

text \<open>An optional string in a condition: \<open>undefined\<close> and the empty string are falsy.\<close>

fun truthy :: "jstring option \<Rightarrow> bool" where
  "truthy None = False"
| "truthy (Some s) = (s \<noteq> [])"

text \<open>An optional string inside a template literal: \<open>undefined\<close> prints as such.\<close>

fun tpl :: "jstring option \<Rightarrow> jstring" where
  "tpl None = ascii ''undefined''"
| "tpl (Some s) = s"

subsection \<open>Plain objects used as dictionaries\<close>

text \<open>
  \<open>knownServices\<close> and the \<open>facts\<close> of a service are plain objects indexed by strings that
  come from the reasoning engine. Such an object is the list of its own properties, in the
  order of enumeration (\<open>Object.entries\<close>, \<open>JSON.stringify\<close>): first the keys that are
  array indices (canonical decimal numerals below \<open>2^32 - 1\<close>), in ascending numeric order,
  then the other keys in the order of their creation.
\<close>

definition is_digit :: "nat \<Rightarrow> bool" where
  "is_digit c \<longleftrightarrow> 48 \<le> c \<and> c \<le> 57"

definition index_value :: "jstring \<Rightarrow> nat" where
  "index_value k = foldl (\<lambda>n c. 10 * n + (c - 48)) 0 k"

definition is_index :: "jstring \<Rightarrow> bool" where
  "is_index k \<longleftrightarrow> k \<noteq> [] \<and> list_all is_digit k \<and> (length k = 1 \<or> hd k \<noteq> 48)
     \<and> index_value k < 4294967295"

fun insert_index :: "jstring \<Rightarrow> 'v \<Rightarrow> (jstring \<times> 'v) list \<Rightarrow> (jstring \<times> 'v) list" where
  "insert_index k v [] = [(k, v)]"
| "insert_index k v (e # es) =
     (if is_index (fst e) \<and> index_value (fst e) < index_value k then e # insert_index k v es
      else (k, v) # e # es)"

text \<open>
  Defining or overwriting an own property: an existing key keeps its place, a new array
  index goes to its place among the indices, any other new key goes to the end.
\<close>

definition obj_set :: "jstring \<Rightarrow> 'v \<Rightarrow> (jstring \<times> 'v) list \<Rightarrow> (jstring \<times> 'v) list" where
  "obj_set k v al =
     (if k \<in> set (map fst al) then AList.update k v al
      else if is_index k then insert_index k v al
      else al @ [(k, v)])"

text \<open>
  Reading \<open>obj[key]\<close> finds an own property or, failing that, a property inherited from
  \<open>Object.prototype\<close>: a function, or for \<open>__proto__\<close> the prototype itself, all of them
  truthy. \<open>Object.prototype\<close> is taken to be as the runtime provides it whenever a function
  of the program is entered: what the program writes to an inherited object lives in the
  process, not in the memory file, and is not modelled.
\<close>

definition inherited_keys :: "jstring list" where
  "inherited_keys = map ascii [''constructor'', ''__defineGetter__'', ''__defineSetter__'',
     ''hasOwnProperty'', ''__lookupGetter__'', ''__lookupSetter__'', ''isPrototypeOf'',
     ''propertyIsEnumerable'', ''toString'', ''valueOf'', ''__proto__'', ''toLocaleString'']"

datatype 'v lookup = Own 'v | Inherited | Absent

definition obj_get :: "(jstring \<times> 'v) list \<Rightarrow> jstring \<Rightarrow> 'v lookup" where
  "obj_get al k = (case map_of al k of
                     Some v \<Rightarrow> Own v
                   | None \<Rightarrow> if k \<in> set inherited_keys then Inherited else Absent)"

text \<open>
  The assignment \<open>obj[key] = text\<close>. On an object without an own property \<open>__proto__\<close> the
  key \<open>__proto__\<close> reaches the setter of \<open>Object.prototype\<close>, which ignores a value that is
  not an object; the other inherited properties are writable data properties, which an
  assignment shadows by an own property.
\<close>

definition proto_key :: jstring where
  "proto_key = ascii ''__proto__''"

definition prop_assign :: "jstring \<Rightarrow> jstring \<Rightarrow> (jstring \<times> jstring) list
    \<Rightarrow> (jstring \<times> jstring) list" where
  "prop_assign k v al =
     (if k = proto_key \<and> k \<notin> set (map fst al) then al else obj_set k v al)"

section \<open>Data model (types.ts)\<close>

text \<open>
  The fields \<open>name\<close>, \<open>verdict\<close> and \<open>hardResults\<close> of a candidate are declared mandatory
  in types.ts, but \<open>handleEvaluation\<close> fills them by unchecked casts from the tool input,
  so they can be \<open>undefined\<close> at run time: they are options here. A number is the real it
  denotes. An object used as a dictionary (\<open>Record<string, T>\<close>) is the association list
  of its own properties in the order in which JavaScript enumerates them (see above).
\<close>

record hard_criterion =
  hc_field :: jstring
  hc_description :: jstring

record soft_criterion =
  sc_description :: jstring
  sc_weight :: real

record research_criteria =
  hard :: "hard_criterion list"
  soft :: "soft_criterion list"

record hard_result =
  hr_criterion :: jstring
  hr_passed :: bool
  hr_evidence :: jstring

record soft_score =
  ss_criterion :: jstring
  ss_score :: real
  ss_reasoning :: jstring

record candidate_record =
  c_name :: "jstring option"
  c_url :: "jstring option"
  c_verdict :: "jstring option"
  c_hardResults :: "hard_result list option"
  c_softScores :: "soft_score list"
  c_rejectionReason :: "jstring option"
  c_notes :: "jstring option"

record research_session =
  s_id :: jstring
  s_timestamp :: jstring
  s_task :: jstring
  s_criteria :: research_criteria
  s_candidates :: "candidate_record list"
  s_bestMatch :: "jstring option"
  s_searchQueries :: "jstring option list"
  s_conclusion :: jstring

record known_service =
  svc_url :: "jstring option"
  svc_lastChecked :: jstring
  svc_facts :: "(jstring \<times> jstring) list"
  svc_verdict :: "jstring option"
  svc_notes :: "jstring list"

record memory_store =
  sessions :: "research_session list"
  knownServices :: "(jstring \<times> known_service) list"

section \<open>Conversation state and the runtime's parameters\<close>

text \<open>
  The input of a tool call is a \<open>Record<string, unknown>\<close> that the reasoning engine
  fills in: every property the program reads may be absent. Properties that are present
  are taken to have the type the tool schema declares.
\<close>

record tool_input =
  ti_query :: "jstring option"
  ti_context :: "jstring option"
  ti_url :: "jstring option"
  ti_what_to_extract :: "jstring option"
  ti_name :: "jstring option"
  ti_hard_criteria :: "hard_result list option"
  ti_soft_criteria :: "soft_score list option"
  ti_verdict :: "jstring option"
  ti_rejection_reason :: "jstring option"
  ti_notes :: "jstring option"

datatype block =
    TextBlock jstring
  | ToolUseBlock jstring jstring tool_input
  | ToolResultBlock jstring jstring bool

datatype role = User | Assistant

datatype msg_content = Str jstring | Blocks "block list"

record message_param =
  m_role :: role
  m_content :: msg_content

datatype stop_reason = end_turn | tool_use | max_tokens | stop_sequence | pause_turn | refusal

record response =
  resp_content :: "block list"
  resp_stop_reason :: stop_reason
  resp_input_tokens :: nat
  resp_output_tokens :: nat

text \<open>
  Built-ins whose result depends on the Unicode tables or on binary floating point are
  parameters of the model: case conversion, the printing of a number, the one-decimal
  printing of the mean of a list of numbers (\<open>(sum / length).toFixed(1)\<close>), and
  \<open>JSON.stringify\<close> of a tool input. Every theorem holds for all values of these
  parameters.
\<close>

record js_builtins =
  toLowerCase :: "jstring \<Rightarrow> jstring"
  toUpperCase :: "jstring \<Rightarrow> jstring"
  numberToString :: "real \<Rightarrow> jstring"
  avgToFixed1 :: "real list \<Rightarrow> jstring"
  jsonStringify :: "tool_input \<Rightarrow> jstring"

text \<open>
  Errors thrown by the program or by a collaborator, as values. An error of the reasoning
  engine's client carries the HTTP status, when there is one. \<open>error_message\<close> is what
  the handler of a failed tool call prints: the message of the error.
\<close>

datatype error =
    ApiError "int option" jstring
  | TypeError jstring
  | GenericError jstring

definition cannot_read :: "string \<Rightarrow> error" where
  \<comment> \<open>the TypeError of a property read on \<open>undefined\<close>, in the wording of V8\<close>
  "cannot_read prop = TypeError (ascii ''Cannot read properties of undefined (reading ''
                         @ [39] @ ascii prop @ [39] @ ascii '')'')"

definition cannot_set :: "jstring \<Rightarrow> error" where
  \<comment> \<open>the TypeError of a property assignment on \<open>undefined\<close>\<close>
  "cannot_set prop = TypeError (ascii ''Cannot set properties of undefined (setting ''
                        @ [39] @ prop @ [39] @ ascii '')'')"

fun error_status :: "error \<Rightarrow> int option" where
  "error_status (ApiError st m) = st"
| "error_status (TypeError m) = None"
| "error_status (GenericError m) = None"

fun error_message :: "error \<Rightarrow> jstring" where
  "error_message (ApiError st m) = m"
| "error_message (TypeError m) = m"
| "error_message (GenericError m) = m"

text \<open>
  The collaborators of a run. The reasoning engine is asked once per attempt of an
  iteration and sees the conversation (the system prompt and the tool schemas are the same
  at every call of a run); the search and extraction back ends are asked once per tool call,
  numbered by \<open>toolCallCount\<close>; the summarizer is asked at most once per iteration and
  receives the serialized middle section. Each of them answers or throws. The clock is read
  when the session record is assembled.
\<close>

record environment =
  runtime :: js_builtins
  engine :: "nat \<Rightarrow> nat \<Rightarrow> message_param list \<Rightarrow> error + response"
  serperSearch :: "nat \<Rightarrow> jstring option \<Rightarrow> error + jstring"
  geminiGroundedSearch :: "nat \<Rightarrow> jstring option \<Rightarrow> jstring option \<Rightarrow> error + jstring"
  extractFromUrl :: "nat \<Rightarrow> jstring option \<Rightarrow> jstring option \<Rightarrow> error + jstring"
  getPageText :: "nat \<Rightarrow> jstring option \<Rightarrow> error + jstring"
  summarize :: "nat \<Rightarrow> jstring \<Rightarrow> jstring option"
  exportToSheets :: "research_session \<Rightarrow> nat \<Rightarrow> nat \<Rightarrow> error + jstring"
  date_now :: nat
  iso_now :: jstring

section \<open>Memory store (memory.ts)\<close>

text \<open>
  The file at \<open>MEMORY_PATH\<close> is the durable state: \<open>None\<close> when it is missing or
  unreadable, otherwise the store it parses to.
\<close>

type_synonym memory_file = "memory_store option"

definition loadMemory :: "memory_file \<Rightarrow> memory_store" where
  "loadMemory f = (case f of Some store \<Rightarrow> store
                   | None \<Rightarrow> \<lparr>sessions = [], knownServices = []\<rparr>)"

definition saveMemory :: "memory_store \<Rightarrow> memory_file" where
  "saveMemory store = Some store"

subsection \<open>extractKeywords\<close>

text \<open>The characters that the replacement keeps: Latin \<open>a-z\<close>, the Cyrillic small letters
  U+0430 to U+044F and U+0451, the digits, and white space.\<close>

definition kw_char :: "nat \<Rightarrow> bool" where
  "kw_char c \<longleftrightarrow> (97 \<le> c \<and> c \<le> 122) \<or> (1072 \<le> c \<and> c \<le> 1103) \<or> c = 1105
     \<or> (48 \<le> c \<and> c \<le> 57) \<or> js_ws c"

text \<open>\<open>split(/\s+/)\<close>: the pieces between maximal runs of white space.\<close>

function split_ws :: "jstring \<Rightarrow> jstring \<Rightarrow> jstring list" where
  "split_ws cur [] = [cur]"
| "split_ws cur (c # cs) =
     (if js_ws c then cur # split_ws [] (dropWhile js_ws cs) else split_ws (cur @ [c]) cs)"
  by pat_completeness auto
termination
  by (relation "measure (\<lambda>(cur, s). length s)")
     (auto simp: less_Suc_eq_le length_dropWhile_le)

definition stopWords :: "jstring list" where
  "stopWords =
     map ascii [''that'', ''this'', ''with'', ''from'', ''have'', ''been'', ''will'', ''should'',
       ''could'', ''would'', ''must'', ''they'', ''their'', ''about'', ''which'', ''there'',
       ''were'', ''what'', ''when'', ''find'', ''need'', ''search'', ''look''] @
     [[1085, 1072, 1081, 1090, 1080], [1085, 1091, 1078, 1085, 1086],
      [1080, 1089, 1082, 1072, 1090, 1100], [1087, 1086, 1080, 1089, 1082],
      [1076, 1086, 1083, 1078, 1077, 1085], [1084, 1086, 1078, 1077, 1090],
      [1090, 1072, 1082, 1078, 1077], [1095, 1077, 1088, 1077, 1079],
      [1073, 1086, 1083, 1077, 1077], [1087, 1086, 1089, 1083, 1077],
      [1087, 1077, 1088, 1077, 1076]]"

definition extractKeywords :: "js_builtins \<Rightarrow> jstring \<Rightarrow> jstring list" where
  "extractKeywords js text =
     filter (\<lambda>w. w \<notin> set stopWords)
       (filter (\<lambda>w. length w > 3)
         (split_ws [] (map (\<lambda>c. if kw_char c then c else 32) (toLowerCase js text))))"

subsection \<open>getMemoryContext\<close>

definition nl :: jstring where
  "nl = [10]"

definition dash :: jstring where
  \<comment> \<open>the em dash U+2014 of the source's literals\<close>
  "dash = [8212]"

text \<open>
  \<open>Array.prototype.sort\<close> with a comparator is a stable sort: an element goes in front
  of the later elements that the comparator does not order before it, so that equal elements
  keep their order.
\<close>

fun insert_by :: "('a \<Rightarrow> 'a \<Rightarrow> int) \<Rightarrow> 'a \<Rightarrow> 'a list \<Rightarrow> 'a list" where
  "insert_by cmp x [] = [x]"
| "insert_by cmp x (y # ys) = (if cmp x y \<le> 0 then x # y # ys else y # insert_by cmp x ys)"

fun js_sort :: "('a \<Rightarrow> 'a \<Rightarrow> int) \<Rightarrow> 'a list \<Rightarrow> 'a list" where
  "js_sort cmp [] = []"
| "js_sort cmp (x # xs) = insert_by cmp x (js_sort cmp xs)"

definition overlap :: "js_builtins \<Rightarrow> jstring list \<Rightarrow> research_session \<Rightarrow> nat" where
  "overlap js taskWords session =
     (let sessionWords = extractKeywords js (s_task session @ ascii '' '' @ s_conclusion session)
      in length (filter (\<lambda>w. w \<in> set sessionWords) taskWords))"

definition scored :: "js_builtins \<Rightarrow> jstring list \<Rightarrow> research_session list
    \<Rightarrow> (research_session \<times> nat) list" where
  "scored js taskWords ss = map (\<lambda>session. (session, overlap js taskWords session)) ss"

definition by_score_desc :: "research_session \<times> nat \<Rightarrow> research_session \<times> nat \<Rightarrow> int" where
  \<comment> \<open>the comparator \<open>(a, b) => b.score - a.score\<close>\<close>
  "by_score_desc a b = int (snd b) - int (snd a)"

definition relevant :: "js_builtins \<Rightarrow> memory_store \<Rightarrow> jstring \<Rightarrow> int
    \<Rightarrow> (research_session \<times> nat) list" where
  "relevant js store task maxSessions =
     js_slice 0 maxSessions
       (js_sort by_score_desc
         (filter (\<lambda>s. snd s > 0) (scored js (extractKeywords js task) (sessions store))))"

text \<open>
  Rendering reads \<open>c.hardResults.filter\<close> and \<open>c.verdict.toUpperCase\<close>, which throw a
  TypeError on a stored candidate that lacks the field (the message is the runtime's).
\<close>

fun render_all :: "('a \<Rightarrow> error + jstring) \<Rightarrow> 'a list \<Rightarrow> error + jstring" where
  "render_all f [] = Inr []"
| "render_all f (x # xs) =
     (case f x of Inl e \<Rightarrow> Inl e
      | Inr t \<Rightarrow> (case render_all f xs of Inl e \<Rightarrow> Inl e | Inr ts \<Rightarrow> Inr (t @ ts)))"

definition render_candidate :: "js_builtins \<Rightarrow> candidate_record \<Rightarrow> error + jstring" where
  "render_candidate js c =
     (case c_hardResults c of
        None \<Rightarrow> Inl (cannot_read ''filter'')
      | Some hrs \<Rightarrow>
          (case c_verdict c of
             None \<Rightarrow> Inl (cannot_read ''toUpperCase'')
           | Some v \<Rightarrow>
               Inr (ascii ''  - '' @ tpl (c_name c) @ ascii '' ['' @ toUpperCase js v @ ascii ''] ''
                    @ dash @ ascii '' hard: '' @ show_nat (length (filter hr_passed hrs))
                    @ ascii ''/'' @ show_nat (length hrs)
                    @ (if truthy (c_rejectionReason c)
                       then ascii '' '' @ dash @ ascii '' rejected: '' @ tpl (c_rejectionReason c)
                       else [])
                    @ nl)))"

definition render_session :: "js_builtins \<Rightarrow> research_session \<times> nat \<Rightarrow> error + jstring" where
  "render_session js r =
     (let session = fst r in
      case render_all (render_candidate js) (s_candidates session) of
        Inl e \<Rightarrow> Inl e
      | Inr cs \<Rightarrow>
          Inr (ascii ''### Session: '' @ js_slice 0 10 (s_timestamp session) @ nl
               @ ascii ''Task: '' @ s_task session @ nl
               @ ascii ''Conclusion: '' @ s_conclusion session @ nl
               @ (if length (s_candidates session) > 0
                  then ascii ''Candidates evaluated:'' @ nl @ cs else [])
               @ (if length (s_searchQueries session) > 0
                  then ascii ''Queries tried: ''
                       @ join (ascii '', '')
                           (map (\<lambda>q. case q of None \<Rightarrow> [] | Some t \<Rightarrow> t)
                              (js_slice 0 8 (s_searchQueries session)))
                       @ nl
                  else [])
               @ nl))"

definition service_relevant :: "js_builtins \<Rightarrow> jstring list \<Rightarrow> jstring \<times> known_service \<Rightarrow> bool"
  where
  "service_relevant js taskWords e =
     (let serviceWords = extractKeywords js
            (fst e @ ascii '' '' @ join (ascii '' '') (map snd (svc_facts (snd e)))
             @ ascii '' '' @ join (ascii '' '') (svc_notes (snd e)))
      in list_ex (\<lambda>w. w \<in> set serviceWords) taskWords)"

definition render_service :: "jstring \<times> known_service \<Rightarrow> jstring" where
  "render_service e =
     (let name = fst e; info = snd e in
      ascii ''**'' @ name @ ascii ''**''
      @ (if truthy (svc_url info) then ascii '' ('' @ tpl (svc_url info) @ ascii '')'' else [])
      @ nl
      @ ascii ''  Last checked: '' @ js_slice 0 10 (svc_lastChecked info) @ nl
      @ (if truthy (svc_verdict info)
         then ascii ''  Previous verdict: '' @ tpl (svc_verdict info) @ nl else [])
      @ concat (map (\<lambda>kv. ascii ''  '' @ fst kv @ ascii '': '' @ snd kv @ nl) (svc_facts info))
      @ (if length (svc_notes info) > 0
         then ascii ''  Notes: '' @ join (ascii ''; '') (js_slice_from (- 3) (svc_notes info)) @ nl
         else [])
      @ nl)"

text \<open>The second part of the context: the known services that share a keyword with the task.\<close>

definition known_services_context :: "js_builtins \<Rightarrow> memory_store \<Rightarrow> jstring list \<Rightarrow> jstring"
  where
  "known_services_context js store taskWords =
     (let relevantServices = filter (service_relevant js taskWords) (knownServices store)
      in if length relevantServices > 0
         then ascii ''## KNOWN SERVICES'' @ nl @ nl
              @ concat (map render_service (js_slice 0 15 relevantServices))
         else [])"

definition getMemoryContext :: "js_builtins \<Rightarrow> memory_file \<Rightarrow> jstring \<Rightarrow> int option
    \<Rightarrow> error + jstring" where
  "getMemoryContext js f task maxSessions_opt =
     (let maxSessions = (case maxSessions_opt of None \<Rightarrow> 5 | Some m \<Rightarrow> m);
          store = loadMemory f
      in if length (sessions store) = 0 \<and> length (knownServices store) = 0
         then Inr (ascii ''No prior research history.'')
         else
           (let taskWords = extractKeywords js task;
                rel = relevant js store task maxSessions
            in case render_all (render_session js) rel of
                 Inl e \<Rightarrow> Inl e
               | Inr past \<Rightarrow>
                   (let context1 = (if length rel > 0
                          then ascii ''## RELEVANT PAST RESEARCH'' @ nl @ nl @ past else []);
                        context2 = context1 @ known_services_context js store taskWords
                    in Inr (if context2 = []
                            then ascii ''No relevant prior research found for this task.''
                            else context2))))"

subsection \<open>saveSession\<close>

text \<open>
  One round of the loop over \<open>session.candidates\<close>. \<open>candidate.name.toLowerCase()\<close> and the
  iteration over \<open>candidate.hardResults\<close> throw a TypeError when the field is \<open>undefined\<close>.
\<close>

definition hard_fact :: "hard_result \<Rightarrow> jstring" where
  "hard_fact hr = (if hr_passed hr then ascii ''YES'' else ascii ''NO'')
                  @ ascii '' '' @ dash @ ascii '' '' @ hr_evidence hr"

definition soft_fact :: "js_builtins \<Rightarrow> soft_score \<Rightarrow> jstring" where
  "soft_fact js sr = numberToString js (ss_score sr) @ ascii ''/10 '' @ dash @ ascii '' ''
                     @ ss_reasoning sr"

text \<open>
  When the key is not an own property of \<open>knownServices\<close> but a property of
  \<open>Object.prototype\<close>, the test \<open>!store.knownServices[key]\<close> fails, no entry is created, and
  \<open>svc\<close> is the inherited object, which has neither \<open>facts\<close> nor \<open>notes\<close>: the first
  statement that reads one of them throws.
\<close>

definition inherited_failure :: "candidate_record \<Rightarrow> error" where
  "inherited_failure candidate =
     (case c_hardResults candidate of
        None \<Rightarrow> TypeError (ascii ''candidate.hardResults is not iterable'')
      | Some [] \<Rightarrow>
          (case c_softScores candidate of
             [] \<Rightarrow> if truthy (c_rejectionReason candidate) \<or> truthy (c_notes candidate)
                   then cannot_read ''push'' else cannot_read ''length''
           | sr # srs \<Rightarrow> cannot_set (ascii ''soft:'' @ ss_criterion sr))
      | Some (hr # hrs) \<Rightarrow> cannot_set (hr_criterion hr))"

definition upsert_candidate :: "js_builtins \<Rightarrow> jstring \<Rightarrow> (jstring \<times> known_service) list
    \<Rightarrow> candidate_record \<Rightarrow> error + (jstring \<times> known_service) list" where
  "upsert_candidate js timestamp ks candidate =
     (case c_name candidate of
        None \<Rightarrow> Inl (cannot_read ''toLowerCase'')
      | Some name \<Rightarrow>
          (let key = trim (toLowerCase js name);
               found = obj_get ks key
           in if found = Inherited then Inl (inherited_failure candidate)
              else
                (let svc0 = (case found of
                               Own svc \<Rightarrow> svc
                             | _ \<Rightarrow> \<lparr>svc_url = None, svc_lastChecked = timestamp,
                                      svc_facts = [], svc_verdict = None, svc_notes = []\<rparr>);
                     svc1 = svc0\<lparr>svc_lastChecked := timestamp,
                                  svc_url := (if truthy (c_url candidate) then c_url candidate
                                              else svc_url svc0),
                                  svc_verdict := c_verdict candidate\<rparr>
                 in case c_hardResults candidate of
                      None \<Rightarrow> Inl (TypeError (ascii ''candidate.hardResults is not iterable''))
                    | Some hrs \<Rightarrow>
                        (let facts1 = fold (\<lambda>hr. prop_assign (hr_criterion hr) (hard_fact hr)) hrs
                                        (svc_facts svc1);
                             facts2 = fold (\<lambda>sr. prop_assign (ascii ''soft:'' @ ss_criterion sr)
                                                     (soft_fact js sr))
                                        (c_softScores candidate) facts1;
                             notes1 = (if truthy (c_rejectionReason candidate)
                                       then svc_notes svc1
                                            @ [ascii ''Rejected ('' @ js_slice 0 10 timestamp
                                               @ ascii ''): ''
                                               @ tpl (c_rejectionReason candidate)]
                                       else svc_notes svc1);
                             notes2 = (if truthy (c_notes candidate)
                                       then notes1 @ [tpl (c_notes candidate)] else notes1);
                             notes3 = (if length notes2 > 10 then js_slice_from (- 10) notes2
                                       else notes2)
                         in Inr (obj_set key (svc1\<lparr>svc_facts := facts2, svc_notes := notes3\<rparr>)
                                   ks)))))"

fun upsert_all :: "js_builtins \<Rightarrow> jstring \<Rightarrow> (jstring \<times> known_service) list
    \<Rightarrow> candidate_record list \<Rightarrow> error + (jstring \<times> known_service) list" where
  "upsert_all js timestamp ks [] = Inr ks"
| "upsert_all js timestamp ks (c # cs) =
     (case upsert_candidate js timestamp ks c of
        Inl e \<Rightarrow> Inl e
      | Inr ks' \<Rightarrow> upsert_all js timestamp ks' cs)"

text \<open>
  The store is written only at the end: when the loop throws, the file keeps its old
  content.
\<close>

definition saveSession :: "js_builtins \<Rightarrow> research_session \<Rightarrow> memory_file
    \<Rightarrow> error + memory_file" where
  "saveSession js session f =
     (let store = loadMemory f;
          sessions1 = sessions store @ [session]
      in case upsert_all js (s_timestamp session) (knownServices store) (s_candidates session) of
           Inl e \<Rightarrow> Inl e
         | Inr ks \<Rightarrow>
             Inr (saveMemory
                    \<lparr>sessions = (if length sessions1 > 50 then js_slice_from (- 50) sessions1
                                 else sessions1),
                     knownServices = ks\<rparr>))"

section \<open>History compressor (compress.ts)\<close>

definition COMPRESS_EVERY :: nat where
  "COMPRESS_EVERY = 3"

fun role_upper :: "role \<Rightarrow> jstring" where
  "role_upper User = ascii ''USER''"
| "role_upper Assistant = ascii ''ASSISTANT''"

fun serialize_block :: "js_builtins \<Rightarrow> jstring \<Rightarrow> block \<Rightarrow> jstring" where
  "serialize_block jsb r (TextBlock t) =
     ascii ''['' @ r @ ascii '' '' @ dash @ ascii '' thinking]: '' @ t"
| "serialize_block jsb r (ToolUseBlock i name input) =
     ascii ''['' @ r @ ascii '' '' @ dash @ ascii '' tool_call]: '' @ name @ ascii ''(''
     @ js_slice 0 200 (jsonStringify jsb input) @ ascii '')''"
| "serialize_block jsb r (ToolResultBlock i c is_error) =
     (let content = js_slice 0 1000 c
      in ascii ''[TOOL_RESULT]: '' @ content
         @ (if length content \<ge> 1000 then ascii ''...'' else []))"

fun serialize_message :: "js_builtins \<Rightarrow> message_param \<Rightarrow> jstring list" where
  "serialize_message jsb msg =
     (case m_content msg of
        Str t \<Rightarrow> [ascii ''['' @ role_upper (m_role msg) @ ascii '']: '' @ t]
      | Blocks bs \<Rightarrow> map (serialize_block jsb (role_upper (m_role msg))) bs)"

definition serializeMessages :: "js_builtins \<Rightarrow> message_param list \<Rightarrow> jstring" where
  "serializeMessages jsb msgs = join (nl @ nl) (concat (map (serialize_message jsb) msgs))"

definition ack_turn :: message_param where
  "ack_turn = \<lparr>m_role = Assistant,
     m_content = Str (ascii ''I'' @ [39] @ ascii
       ''ll begin researching this. Let me start by reviewing my progress so far.'')\<rparr>"

definition summary_turn :: "nat \<Rightarrow> jstring \<Rightarrow> message_param" where
  "summary_turn n summary = \<lparr>m_role = User,
     m_content = Str (ascii ''[RESEARCH PROGRESS SUMMARY '' @ dash @ ascii '' compressed from ''
       @ show_nat n @ ascii '' previous exchanges]'' @ nl @ nl @ summary @ nl @ nl
       @ ascii ''[END SUMMARY '' @ dash @ ascii '' continuing research from here]'')\<rparr>"

text \<open>
  \<open>compressHistory\<close>, called in iteration \<open>it\<close>. A failure of the summarizer is caught and
  the history is returned as it was.
\<close>

definition compressHistory :: "environment \<Rightarrow> nat \<Rightarrow> message_param list \<Rightarrow> int
    \<Rightarrow> message_param list" where
  "compressHistory env it messages keepLastExchanges =
     (if length messages < 6 then messages
      else
        (let firstMessage = messages ! 0;
             tailCount = keepLastExchanges * 2;
             tail = js_slice_from (- tailCount) messages;
             middle = js_slice 1 (- tailCount) messages
         in if length middle < 4 then messages
            else
              (case summarize env it (serializeMessages (runtime env) middle) of
                 None \<Rightarrow> messages
               | Some summary \<Rightarrow>
                   [firstMessage, ack_turn, summary_turn (length middle) summary] @ tail)))"

section \<open>Tool gateway and orchestration loop (agent.ts)\<close>

definition MAX_ITERATIONS :: nat where
  "MAX_ITERATIONS = 10"

definition MAX_RESULT :: nat where
  "MAX_RESULT = 4000"

text \<open>
  The state of a run: the module-level accumulators \<open>sessionCandidates\<close> and
  \<open>sessionQueries\<close>, and the local variables of the loop. Console output, and the token
  estimate that is only printed, are left out.
\<close>

record agent_state =
  sessionCandidates :: "candidate_record list"
  sessionQueries :: "jstring option list"
  messages :: "message_param list"
  iterations :: nat
  toolCallCount :: nat
  totalInputTokens :: nat
  totalOutputTokens :: nat

record research_result =
  answer :: jstring
  res_iterations :: nat
  toolCalls :: nat
  candidatesEvaluated :: nat
  sheetUrl :: "jstring option"
  cost_inputTokens :: nat
  cost_outputTokens :: nat
  cost_estimatedUsd :: real

subsection \<open>handleEvaluation\<close>

definition soft_report :: "js_builtins \<Rightarrow> soft_score list \<Rightarrow> jstring" where
  "soft_report jsb softScores =
     (if length softScores > 0
      then nl @ ascii ''Soft criteria: avg '' @ avgToFixed1 jsb (map ss_score softScores)
           @ ascii ''/10'' @ nl
           @ concat (map (\<lambda>s. ascii ''  '' @ numberToString jsb (ss_score s) @ ascii ''/10 ''
                              @ dash @ ascii '' '' @ ss_criterion s @ nl
                              @ ascii ''     '' @ ss_reasoning s @ nl) softScores)
      else [])"

definition hard_report :: "hard_result list \<Rightarrow> jstring" where
  "hard_report hardResults =
     (let passed = length (filter hr_passed hardResults);
          total = length hardResults
      in ascii ''Hard criteria: '' @ show_nat passed @ ascii ''/'' @ show_nat total @ ascii '' ''
         @ (if passed = total then [9989] @ ascii '' ALL PASSED'' else [10060] @ ascii '' FAILED'')
         @ nl
         @ concat (map (\<lambda>r. ascii ''  '' @ (if hr_passed r then [9989] else [10060]) @ ascii '' ''
                            @ hr_criterion r @ nl
                            @ ascii ''     '' @ hr_evidence r @ nl) hardResults))"

text \<open>
  The candidate is pushed before the report is built, so a call that throws on a missing
  \<open>hard_criteria\<close> or \<open>verdict\<close> has already recorded its candidate. The result is the
  outcome of the call and the new \<open>sessionCandidates\<close>.
\<close>

definition handleEvaluation :: "js_builtins \<Rightarrow> tool_input \<Rightarrow> candidate_record list
    \<Rightarrow> (error + jstring) \<times> candidate_record list" where
  "handleEvaluation jsb input cands =
     (let hardResults = ti_hard_criteria input;
          softScores = (case ti_soft_criteria input of None \<Rightarrow> [] | Some ss \<Rightarrow> ss);
          verdict = ti_verdict input;
          candidate = \<lparr>c_name = ti_name input, c_url = ti_url input, c_verdict = verdict,
                       c_hardResults = hardResults, c_softScores = softScores,
                       c_rejectionReason = ti_rejection_reason input,
                       c_notes = ti_notes input\<rparr>;
          cands' = cands @ [candidate]
      in case hardResults of
           None \<Rightarrow>
             (Inl (cannot_read ''filter''),
              cands')
         | Some hrs \<Rightarrow>
             (case verdict of
                None \<Rightarrow>
                  (Inl (cannot_read ''toUpperCase''),
                   cands')
              | Some v \<Rightarrow>
                  (Inr (nl @ [55357, 56522] @ ascii '' EVALUATION: '' @ tpl (c_name candidate) @ nl
                        @ replicate 50 9472 @ nl
                        @ hard_report hrs
                        @ soft_report jsb softScores
                        @ nl @ ascii ''Verdict: '' @ toUpperCase jsb v
                        @ (if truthy (c_rejectionReason candidate)
                           then ascii '' '' @ dash @ ascii '' '' @ tpl (c_rejectionReason candidate)
                           else [])
                        @ (if truthy (c_notes candidate)
                           then nl @ ascii ''Notes: '' @ tpl (c_notes candidate) else [])
                        @ nl),
                   cands')))"

subsection \<open>executeTool\<close>

definition executeTool :: "environment \<Rightarrow> jstring \<Rightarrow> tool_input \<Rightarrow> agent_state
    \<Rightarrow> (error + jstring) \<times> agent_state" where
  "executeTool env name input s =
     (if name = ascii ''google_search'' then
        (serperSearch env (toolCallCount s) (ti_query input),
         s\<lparr>sessionQueries := sessionQueries s @ [ti_query input]\<rparr>)
      else if name = ascii ''discover'' then
        (geminiGroundedSearch env (toolCallCount s) (ti_query input) (ti_context input),
         s\<lparr>sessionQueries := sessionQueries s
              @ [Some (ascii ''[discover] '' @ tpl (ti_query input))]\<rparr>)
      else if name = ascii ''extract_page'' then
        (extractFromUrl env (toolCallCount s) (ti_url input) (ti_what_to_extract input), s)
      else if name = ascii ''read_page'' then
        (getPageText env (toolCallCount s) (ti_url input), s)
      else if name = ascii ''evaluate'' then
        (let r = handleEvaluation (runtime env) input (sessionCandidates s)
         in (fst r, s\<lparr>sessionCandidates := snd r\<rparr>))
      else (Inl (GenericError (ascii ''Unknown tool: '' @ name)), s))"

subsection \<open>runResearchAgent\<close>

text \<open>
  The retry loop around the call of the reasoning engine, from attempt \<open>attempt\<close> on. The
  result also lists the seconds waited before each retry. The loop cannot end without a
  response or an error, since the fifth failure is thrown; the last branch is what reading
  \<open>response.usage\<close> would throw if it did.
\<close>

function callWithRetry :: "environment \<Rightarrow> nat \<Rightarrow> message_param list \<Rightarrow> nat
    \<Rightarrow> nat list \<times> (error + response)" where
  "callWithRetry env it msgs attempt =
     (if attempt < 5 then
        (case engine env it attempt msgs of
           Inr resp \<Rightarrow> ([], Inr resp)
         | Inl err \<Rightarrow>
             if error_status err = Some 429 \<and> attempt < 4
             then (let wait = min (15 * (attempt + 1)) 60;
                       r = callWithRetry env it msgs (attempt + 1)
                   in (wait # fst r, snd r))
             else ([], Inl err))
      else ([], Inl (cannot_read ''usage'')))"
  by pat_completeness auto
termination
  by (relation "measure (\<lambda>(env, it, msgs, attempt). 5 - attempt)") auto

declare callWithRetry.simps [simp del]

definition trim_result :: "jstring \<Rightarrow> jstring" where
  "trim_result result =
     (if length result > MAX_RESULT
      then js_slice 0 (int MAX_RESULT) result @ nl @ nl @ ascii ''[Truncated: ''
           @ show_nat (length result) @ ascii '' chars total. Key info above.]''
      else result)"

text \<open>
  The loop over the tool-use blocks of a response. A call that throws is answered by an
  error-flagged result, and the loop goes on with the next call.
\<close>

fun run_tools :: "environment \<Rightarrow> block list \<Rightarrow> agent_state \<Rightarrow> block list \<times> agent_state" where
  "run_tools env [] s = ([], s)"
| "run_tools env (ToolUseBlock i name input # bs) s =
     (let s1 = s\<lparr>toolCallCount := toolCallCount s + 1\<rparr>;
          r = executeTool env name input s1;
          res = (case fst r of
                   Inr result \<Rightarrow> ToolResultBlock i (trim_result result) False
                 | Inl e \<Rightarrow> ToolResultBlock i (ascii ''Error: '' @ error_message e) True);
          rest = run_tools env bs (snd r)
      in (res # fst rest, snd rest))"
| "run_tools env (b # bs) s = run_tools env bs s"

fun is_tool_use :: "block \<Rightarrow> bool" where
  "is_tool_use (ToolUseBlock i n inp) = True"
| "is_tool_use b = False"

fun block_texts :: "block list \<Rightarrow> jstring list" where
  "block_texts [] = []"
| "block_texts (TextBlock t # bs) = t # block_texts bs"
| "block_texts (b # bs) = block_texts bs"

definition estimatedUsd :: "nat \<Rightarrow> nat \<Rightarrow> real" where
  \<comment> \<open>the exact value of the formula; the program computes it in binary floating point\<close>
  "estimatedUsd inTok outTok = real inTok / 1000000 * 3 + real outTok / 1000000 * 15"

definition bestMatch :: "candidate_record list \<Rightarrow> jstring option" where
  "bestMatch cands = (case find (\<lambda>c. c_verdict c = Some (ascii ''pass'')) cands of
                        None \<Rightarrow> None | Some c \<Rightarrow> c_name c)"

text \<open>
  The end of a run on \<open>end_turn\<close>: the session is assembled, saved and exported. An error
  thrown by \<open>saveSession\<close> or by the export leaves the run.
\<close>

definition finish :: "environment \<Rightarrow> jstring \<Rightarrow> research_criteria \<Rightarrow> memory_file
    \<Rightarrow> agent_state \<Rightarrow> block list \<Rightarrow> memory_file \<times> (error + research_result)" where
  "finish env task criteria f s content =
     (let finalText = join nl (block_texts content);
          session = \<lparr>s_id = ascii ''session_'' @ show_nat (date_now env),
                     s_timestamp = iso_now env, s_task = task, s_criteria = criteria,
                     s_candidates = sessionCandidates s,
                     s_bestMatch = bestMatch (sessionCandidates s),
                     s_searchQueries = sessionQueries s,
                     s_conclusion = js_slice 0 500 finalText\<rparr>
      in case saveSession (runtime env) session f of
           Inl e \<Rightarrow> (f, Inl e)
         | Inr f' \<Rightarrow>
             (case exportToSheets env session (totalInputTokens s) (totalOutputTokens s) of
                Inl e \<Rightarrow> (f', Inl e)
              | Inr url \<Rightarrow>
                  (f', Inr \<lparr>answer = finalText, res_iterations = iterations s,
                            toolCalls = toolCallCount s,
                            candidatesEvaluated = length (sessionCandidates s),
                            sheetUrl = (if url = [] then None else Some url),
                            cost_inputTokens = totalInputTokens s,
                            cost_outputTokens = totalOutputTokens s,
                            cost_estimatedUsd =
                              estimatedUsd (totalInputTokens s) (totalOutputTokens s)\<rparr>)))"

text \<open>The end of a run that reached the iteration cap.\<close>

definition exhausted :: "environment \<Rightarrow> jstring \<Rightarrow> research_criteria \<Rightarrow> memory_file
    \<Rightarrow> agent_state \<Rightarrow> memory_file \<times> (error + research_result)" where
  "exhausted env task criteria f s =
     (let session = \<lparr>s_id = ascii ''session_'' @ show_nat (date_now env),
                     s_timestamp = iso_now env, s_task = task, s_criteria = criteria,
                     s_candidates = sessionCandidates s,
                     s_bestMatch = None,
                     s_searchQueries = sessionQueries s,
                     s_conclusion = ascii ''Reached max iterations ('' @ show_nat MAX_ITERATIONS
                       @ ascii ''). Evaluated '' @ show_nat (length (sessionCandidates s))
                       @ ascii '' candidates.''\<rparr>
      in case saveSession (runtime env) session f of
           Inl e \<Rightarrow> (f, Inl e)
         | Inr f' \<Rightarrow>
             (case exportToSheets env session (totalInputTokens s) (totalOutputTokens s) of
                Inl e \<Rightarrow> (f', Inl e)
              | Inr url \<Rightarrow>
                  (f', Inr \<lparr>answer = ascii ''Research stopped after '' @ show_nat MAX_ITERATIONS
                              @ ascii '' iterations. Evaluated ''
                              @ show_nat (length (sessionCandidates s))
                              @ ascii '' candidates. Results saved to memory.'',
                            res_iterations = iterations s,
                            toolCalls = toolCallCount s,
                            candidatesEvaluated = length (sessionCandidates s),
                            sheetUrl = None,
                            cost_inputTokens = totalInputTokens s,
                            cost_outputTokens = totalOutputTokens s,
                            cost_estimatedUsd =
                              estimatedUsd (totalInputTokens s) (totalOutputTokens s)\<rparr>)))"

text \<open>
  One pass through the body of the \<open>while\<close> loop: it leaves the run (by \<open>return\<close> or by an
  error of the engine) or hands the next state to the loop.
\<close>

datatype step =
    Return "memory_file \<times> (error + research_result)"
  | Continue agent_state

definition compress_due :: "environment \<Rightarrow> nat \<Rightarrow> message_param list \<Rightarrow> message_param list"
  where
  \<comment> \<open>the conversation sent in iteration \<open>it\<close>: compressed at iterations 4, 7 and 10\<close>
  "compress_due env it msgs =
     (if it > 1 \<and> (it - 1) mod COMPRESS_EVERY = 0 then compressHistory env it msgs 2 else msgs)"

definition iteration :: "environment \<Rightarrow> jstring \<Rightarrow> research_criteria \<Rightarrow> memory_file
    \<Rightarrow> agent_state \<Rightarrow> step" where
  "iteration env task criteria f s =
     (let it = iterations s + 1;
          msgs = compress_due env it (messages s)
      in case snd (callWithRetry env it msgs 0) of
           Inl err \<Rightarrow> Return (f, Inl err)
         | Inr resp \<Rightarrow>
             (let s1 = s\<lparr>iterations := it, messages := msgs,
                         totalInputTokens := totalInputTokens s + resp_input_tokens resp,
                         totalOutputTokens := totalOutputTokens s + resp_output_tokens resp\<rparr>
              in if resp_stop_reason resp = end_turn
                 then Return (finish env task criteria f s1 (resp_content resp))
                 else if resp_stop_reason resp = tool_use
                 then (let toolBlocks = filter is_tool_use (resp_content resp);
                           r = run_tools env toolBlocks s1
                       in Continue ((snd r)\<lparr>messages := messages (snd r)
                            @ [\<lparr>m_role = Assistant, m_content = Blocks (resp_content resp)\<rparr>,
                               \<lparr>m_role = User, m_content = Blocks (fst r)\<rparr>]\<rparr>))
                 else Continue s1))"

text \<open>The \<open>while\<close> loop, and what follows it when the cap is reached.\<close>

function agent_loop :: "environment \<Rightarrow> jstring \<Rightarrow> research_criteria \<Rightarrow> memory_file
    \<Rightarrow> agent_state \<Rightarrow> memory_file \<times> (error + research_result)" where
  "agent_loop env task criteria f s =
     (if iterations s < MAX_ITERATIONS
      then (case iteration env task criteria f s of
              Return r \<Rightarrow> r
            | Continue s' \<Rightarrow> agent_loop env task criteria f s')
      else exhausted env task criteria f s)"
  by pat_completeness auto
termination
proof (relation "measure (\<lambda>(env, task, criteria, f, s). MAX_ITERATIONS - iterations s)")
  show "wf (measure (\<lambda>(env, task, criteria, f, s). MAX_ITERATIONS - iterations s))"
    by simp
next
  fix env :: environment and task :: jstring and criteria :: research_criteria
    and f :: memory_file and s s' :: agent_state
  assume below: "iterations s < MAX_ITERATIONS"
    and continue: "iteration env task criteria f s = Continue s'"
  have tools: "iterations (snd (run_tools e bs t)) = iterations t" for e bs t
    by (induction e bs t rule: run_tools.induct) (simp_all add: Let_def executeTool_def)
  from continue have "iterations s' = iterations s + 1"
    by (auto simp: iteration_def Let_def tools split: sum.splits if_splits)
  with below show "((env, task, criteria, f, s'), (env, task, criteria, f, s))
      \<in> measure (\<lambda>(env, task, criteria, f, s). MAX_ITERATIONS - iterations s)"
    by simp
qed

declare agent_loop.simps [simp del]

text \<open>
  \<open>runResearchAgent\<close>: the accumulators are reset, the memory context is fetched (it enters
  the system prompt, which the engine parameter stands for), and the conversation starts
  with the task. The result is the memory file after the run and what the run returned or
  threw.
\<close>

definition initial_state :: "jstring \<Rightarrow> agent_state" where
  "initial_state task =
     \<lparr>sessionCandidates = [], sessionQueries = [],
      messages = [\<lparr>m_role = User, m_content = Str task\<rparr>],
      iterations = 0, toolCallCount = 0, totalInputTokens = 0, totalOutputTokens = 0\<rparr>"

definition runResearchAgent :: "environment \<Rightarrow> memory_file \<Rightarrow> jstring \<Rightarrow> research_criteria
    \<Rightarrow> memory_file \<times> (error + research_result)" where
  "runResearchAgent env f task criteria =
     (case getMemoryContext (runtime env) f task None of
        Inl e \<Rightarrow> (f, Inl e)
      | Inr memoryContext \<Rightarrow> agent_loop env task criteria f (initial_state task))"

section \<open>Notions used in the statements\<close>

text \<open>
  A candidate conforms to its declaration in types.ts when the three fields that
  \<open>handleEvaluation\<close> casts without a check are present.
\<close>

definition well_typed_candidate :: "candidate_record \<Rightarrow> bool" where
  "well_typed_candidate c \<longleftrightarrow> c_name c \<noteq> None \<and> c_verdict c \<noteq> None \<and> c_hardResults c \<noteq> None"

text \<open>The key under which \<open>saveSession\<close> files a candidate: its name, lower-cased and trimmed.\<close>

definition normalized_name :: "js_builtins \<Rightarrow> candidate_record \<Rightarrow> jstring" where
  "normalized_name js c = (case c_name c of None \<Rightarrow> [] | Some n \<Rightarrow> trim (toLowerCase js n))"

text \<open>
  A candidate can be filed when it conforms to types.ts and its key is not the name of a
  property that a plain object inherits.
\<close>

definition storable :: "js_builtins \<Rightarrow> candidate_record \<Rightarrow> bool" where
  "storable js c \<longleftrightarrow> well_typed_candidate c \<and> normalized_name js c \<notin> set inherited_keys"

text \<open>
  The fact entries a candidate records, in the order of the two loops of \<open>saveSession\<close>,
  and those a session records under one key.
\<close>

definition writes :: "js_builtins \<Rightarrow> candidate_record \<Rightarrow> (jstring \<times> jstring) list" where
  "writes js c =
     map (\<lambda>hr. (hr_criterion hr, hard_fact hr))
       (case c_hardResults c of None \<Rightarrow> [] | Some hrs \<Rightarrow> hrs)
     @ map (\<lambda>sr. (ascii ''soft:'' @ ss_criterion sr, soft_fact js sr)) (c_softScores c)"

definition session_writes :: "js_builtins \<Rightarrow> research_session \<Rightarrow> jstring
    \<Rightarrow> (jstring \<times> jstring) list" where
  "session_writes js session key =
     concat (map (writes js) (filter (\<lambda>c. normalized_name js c = key) (s_candidates session)))"

text \<open>The fact map of the known service filed under a key (empty when there is none).\<close>

definition facts_of :: "(jstring \<times> known_service) list \<Rightarrow> jstring \<Rightarrow> (jstring \<times> jstring) list"
  where
  "facts_of ks key = (case map_of ks key of None \<Rightarrow> [] | Some svc \<Rightarrow> svc_facts svc)"

definition entries_for :: "'k \<Rightarrow> ('k \<times> 'v) list \<Rightarrow> ('k \<times> 'v) list" where
  "entries_for k al = filter (\<lambda>e. fst e = k) al"

text \<open>
  A store read from the file is a JSON document: the keys of an object are distinct.
\<close>

definition store_ok :: "memory_store \<Rightarrow> bool" where
  "store_ok store \<longleftrightarrow> distinct (map fst (knownServices store))
     \<and> list_all (\<lambda>e. distinct (map fst (svc_facts (snd e)))) (knownServices store)"

text \<open>Recording a list of fact entries, one property assignment each.\<close>

definition record_facts :: "(jstring \<times> jstring) list \<Rightarrow> (jstring \<times> jstring) list
    \<Rightarrow> (jstring \<times> jstring) list" where
  "record_facts ws fs = fold (\<lambda>kv. prop_assign (fst kv) (snd kv)) ws fs"






section \<open>Concrete scenarios\<close>

text \<open>A runtime for ASCII text, and collaborators that answer without incident.\<close>

definition ascii_runtime :: js_builtins where
  "ascii_runtime = \<lparr>
     toLowerCase = map (\<lambda>c. if 65 \<le> c \<and> c \<le> 90 then c + 32 else c),
     toUpperCase = map (\<lambda>c. if 97 \<le> c \<and> c \<le> 122 then c - 32 else c),
     numberToString = (\<lambda>x. show_nat (nat \<lfloor>x\<rfloor>)),
     avgToFixed1 = (\<lambda>xs. ascii ''0.0''),
     jsonStringify = (\<lambda>i. ascii ''{}'')\<rparr>"

definition no_input :: tool_input where
  "no_input = \<lparr>ti_query = None, ti_context = None, ti_url = None, ti_what_to_extract = None,
     ti_name = None, ti_hard_criteria = None, ti_soft_criteria = None, ti_verdict = None,
     ti_rejection_reason = None, ti_notes = None\<rparr>"

definition sms_criteria :: research_criteria where
  "sms_criteria = \<lparr>hard = [\<lparr>hc_field = ascii ''coverage'',
                            hc_description = ascii ''direct routes to Argentina''\<rparr>],
                   soft = [\<lparr>sc_description = ascii ''support quality'', sc_weight = 3\<rparr>]\<rparr>"

definition quiet_env :: "(nat \<Rightarrow> response) \<Rightarrow> environment" where
  "quiet_env script = \<lparr>
     runtime = ascii_runtime,
     engine = (\<lambda>it attempt msgs. Inr (script it)),
     serperSearch = (\<lambda>n q. Inr (ascii ''no results'')),
     geminiGroundedSearch = (\<lambda>n q c. Inr (ascii ''no results'')),
     extractFromUrl = (\<lambda>n u w. Inr (ascii ''nothing found'')),
     getPageText = (\<lambda>n u. Inr (ascii ''empty page'')),
     summarize = (\<lambda>it t. None),
     exportToSheets = (\<lambda>s i out. Inr []),
     date_now = 0,
     iso_now = ascii ''2025-01-01T00:00:00.000Z''\<rparr>"

definition acme_candidate :: candidate_record where
  "acme_candidate = \<lparr>c_name = Some (ascii ''Acme SMS''), c_url = None,
     c_verdict = Some (ascii ''pass''),
     c_hardResults = Some [\<lparr>hr_criterion = ascii ''coverage'', hr_passed = True,
                              hr_evidence = ascii ''direct routes''\<rparr>],
     c_softScores = [], c_rejectionReason = None, c_notes = None\<rparr>"

definition acme_again :: candidate_record where
  "acme_again = acme_candidate\<lparr>c_name := Some (ascii '' ACME sms ''),
     c_hardResults := Some [\<lparr>hr_criterion = ascii ''coverage'', hr_passed = False,
                               hr_evidence = ascii ''resold routes''\<rparr>],
     c_verdict := Some (ascii ''fail'')\<rparr>"

definition sms_session :: "candidate_record list \<Rightarrow> research_session" where
  "sms_session cs = \<lparr>s_id = ascii ''session_1'', s_timestamp = ascii ''2025-01-01T00:00:00.000Z'',
     s_task = ascii ''find an SMS provider'', s_criteria = sms_criteria, s_candidates = cs,
     s_bestMatch = None, s_searchQueries = [], s_conclusion = ascii ''Acme SMS fits''\<rparr>"

text \<open>A store that holds 50 sessions, numbered from the oldest to the most recent.\<close>

definition numbered_session :: "nat \<Rightarrow> research_session" where
  "numbered_session i = (sms_session [])\<lparr>s_id := ascii ''session_'' @ show_nat i\<rparr>"

definition full_store :: memory_file where
  "full_store = Some \<lparr>sessions = map numbered_session [1 ..< 51], knownServices = []\<rparr>"

text \<open>
  A candidate whose name is a word that every plain object inherits, and a candidate with
  two results for a criterion of the name \<open>__proto__\<close>.
\<close>

definition constructor_candidate :: candidate_record where
  "constructor_candidate = acme_candidate\<lparr>c_name := Some (ascii ''Constructor'')\<rparr>"

definition constructor_again :: candidate_record where
  "constructor_again = constructor_candidate\<lparr>c_name := Some (ascii '' constructor '')\<rparr>"

definition proto_criterion_candidate :: candidate_record where
  "proto_criterion_candidate = acme_candidate\<lparr>c_hardResults :=
     Some [\<lparr>hr_criterion = ascii ''__proto__'', hr_passed = True,
             hr_evidence = ascii ''direct routes''\<rparr>,
           \<lparr>hr_criterion = ascii ''__proto__'', hr_passed = False,
             hr_evidence = ascii ''resold routes''\<rparr>]\<rparr>"

text \<open>A store of four past sessions, of which three share keywords with a task on SMS
  providers in Argentina, and of two known services, of which one does.\<close>

definition brazil_session :: research_session where
  "brazil_session = (sms_session [])\<lparr>s_task := ascii ''SMS provider for Brazil'',
     s_conclusion := ascii ''none found''\<rparr>"

definition argentina_session :: research_session where
  "argentina_session = (sms_session [])\<lparr>s_task := ascii ''SMS provider for Argentina'',
     s_conclusion := ascii ''none found''\<rparr>"

definition hosting_session :: research_session where
  "hosting_session = (sms_session [])\<lparr>s_task := ascii ''email hosting'',
     s_conclusion := ascii ''none found''\<rparr>"

definition voice_session :: research_session where
  "voice_session = (sms_session [])\<lparr>s_task := ascii ''Argentina voice provider'',
     s_conclusion := ascii ''none found''\<rparr>"

definition four_sessions :: memory_file where
  "four_sessions = Some \<lparr>sessions = [brazil_session, argentina_session, hosting_session,
                                      voice_session],
     knownServices =
       [(ascii ''acme sms'',
         \<lparr>svc_url = Some (ascii ''https://acme.example''),
          svc_lastChecked = ascii ''2025-01-01T00:00:00.000Z'',
          svc_facts = [(ascii ''coverage'',
                        ascii ''YES '' @ dash @ ascii '' routes to Argentina'')],
          svc_verdict = Some (ascii ''pass''), svc_notes = []\<rparr>),
        (ascii ''mailer'',
         \<lparr>svc_url = None, svc_lastChecked = ascii ''2025-01-01T00:00:00.000Z'',
          svc_facts = [], svc_verdict = Some (ascii ''fail''), svc_notes = []\<rparr>)]\<rparr>"

text \<open>
  Tool calls of the engine: a well-formed evaluation, and one that lacks the required
  \<open>hard_criteria\<close>; the candidate the latter leaves behind.
\<close>

definition acme_pass :: tool_input where
  "acme_pass = no_input\<lparr>ti_name := Some (ascii ''Acme SMS''),
     ti_hard_criteria := Some [\<lparr>hr_criterion = ascii ''coverage'', hr_passed = True,
                               hr_evidence = ascii ''direct routes''\<rparr>],
     ti_verdict := Some (ascii ''pass'')\<rparr>"

definition acme_malformed :: tool_input where
  "acme_malformed = no_input\<lparr>ti_name := Some (ascii ''Acme SMS''),
     ti_verdict := Some (ascii ''pass'')\<rparr>"

definition malformed_candidate :: candidate_record where
  "malformed_candidate = acme_candidate\<lparr>c_hardResults := None\<rparr>"

text \<open>
  Scripts of the engine, by iteration: a malformed evaluation followed by a final answer;
  a passing evaluation followed by searches without end; a passing evaluation and a search
  followed by a final answer; a final answer at once.
\<close>

definition malformed_then_finish :: "nat \<Rightarrow> response" where
  "malformed_then_finish it =
     (if it = 1
      then \<lparr>resp_content = [ToolUseBlock (ascii ''t1'') (ascii ''evaluate'') acme_malformed],
            resp_stop_reason = tool_use, resp_input_tokens = 0, resp_output_tokens = 0\<rparr>
      else \<lparr>resp_content = [TextBlock (ascii ''Acme SMS is the best match.'')],
            resp_stop_reason = end_turn, resp_input_tokens = 0, resp_output_tokens = 0\<rparr>)"

definition pass_then_search :: "nat \<Rightarrow> response" where
  "pass_then_search it =
     (if it = 1
      then \<lparr>resp_content = [ToolUseBlock (ascii ''t1'') (ascii ''evaluate'') acme_pass],
            resp_stop_reason = tool_use, resp_input_tokens = 0, resp_output_tokens = 0\<rparr>
      else \<lparr>resp_content = [ToolUseBlock (ascii ''t'') (ascii ''google_search'')
                              (no_input\<lparr>ti_query := Some (ascii ''sms argentina'')\<rparr>)],
            resp_stop_reason = tool_use, resp_input_tokens = 0, resp_output_tokens = 0\<rparr>)"


definition finish_at_once :: "nat \<Rightarrow> response" where
  "finish_at_once it = \<lparr>resp_content = [TextBlock (ascii ''Nothing to report.'')],
     resp_stop_reason = end_turn, resp_input_tokens = 0, resp_output_tokens = 0\<rparr>"

text \<open>An engine that is rate limited at every attempt, and a summarizer that answers.\<close>

definition rate_limited :: error where
  "rate_limited = ApiError (Some 429) (ascii ''rate limited'')"

definition limited_env :: environment where
  "limited_env = (quiet_env finish_at_once)\<lparr>engine := (\<lambda>it attempt msgs. Inl rate_limited)\<rparr>"

definition summarizing_env :: environment where
  "summarizing_env =
     (quiet_env finish_at_once)\<lparr>summarize := (\<lambda>it t. Some (ascii ''Acme SMS: PASS''))\<rparr>"

text \<open>A conversation of nine turns: the task and four exchanges, each reading a page.\<close>

definition read_exchange :: "string \<Rightarrow> message_param list" where
  "read_exchange i =
     [\<lparr>m_role = Assistant, m_content = Blocks
         [ToolUseBlock (ascii i) (ascii ''read_page'') no_input]\<rparr>,
      \<lparr>m_role = User, m_content = Blocks
         [ToolResultBlock (ascii i) (ascii ''empty page'') False]\<rparr>]"

definition long_history :: "message_param list" where
  "long_history =
     \<lparr>m_role = User, m_content = Str (ascii ''find an SMS provider'')\<rparr>
     # read_exchange ''t1'' @ read_exchange ''t2'' @ read_exchange ''t3'' @ read_exchange ''t4''"

section \<open>Properties of the memory store\<close>

lemma ascii_eq [simp]: "ascii s = ascii t \<longleftrightarrow> s = t"
  by (simp add: ascii_def inj_map_eq_map [OF inj_of_char])

lemma keys_insert_index: "fst ` set (insert_index k v al) = insert k (fst ` set al)"
  by (induction al) auto

lemma map_of_insert_index:
  "k \<notin> fst ` set al \<Longrightarrow> map_of (insert_index k v al) = (map_of al)(k \<mapsto> v)"
  by (induction al) (auto simp: fun_eq_iff)

lemma distinct_insert_index:
  "k \<notin> fst ` set al \<Longrightarrow> distinct (map fst al) \<Longrightarrow> distinct (map fst (insert_index k v al))"
  by (induction al) (auto simp: keys_insert_index)

lemma keys_update: "fst ` set (AList.update k v al) = insert k (fst ` set al)"
  by (simp add: dom_update)

lemma keys_obj_set: "fst ` set (obj_set k v al) = insert k (fst ` set al)"
  by (simp add: obj_set_def keys_update keys_insert_index)

lemma map_of_obj_set: "map_of (obj_set k v al) = (map_of al)(k \<mapsto> v)"
proof (cases "k \<in> fst ` set al")
  case True
  then show ?thesis by (simp add: obj_set_def update_conv')
next
  case False
  then have "map_of al k = None" by (simp add: map_of_eq_None_iff)
  then have "map_of (al @ [(k, v)]) = (map_of al)(k \<mapsto> v)"
    by (auto simp: fun_eq_iff map_add_def split: option.splits)
  with False show ?thesis by (simp add: obj_set_def map_of_insert_index)
qed

lemma distinct_obj_set: "distinct (map fst al) \<Longrightarrow> distinct (map fst (obj_set k v al))"
  by (auto simp: obj_set_def distinct_update distinct_insert_index)

lemma keys_prop_assign:
  "fst ` set (prop_assign k v al) =
     (if k = proto_key \<and> k \<notin> fst ` set al then fst ` set al else insert k (fst ` set al))"
  by (auto simp: prop_assign_def keys_obj_set)

lemma map_of_prop_assign:
  "map_of (prop_assign k v al) =
     (if k = proto_key \<and> map_of al k = None then map_of al else (map_of al)(k \<mapsto> v))"
  by (auto simp: prop_assign_def map_of_obj_set map_of_eq_None_iff)

lemma distinct_prop_assign:
  "distinct (map fst al) \<Longrightarrow> distinct (map fst (prop_assign k v al))"
  by (simp add: prop_assign_def distinct_obj_set)

lemma record_facts_Cons:
  "record_facts (kv # ws) fs = record_facts ws (prop_assign (fst kv) (snd kv) fs)"
  by (simp add: record_facts_def)

lemma record_facts_append:
  "record_facts (ws1 @ ws2) fs = record_facts ws2 (record_facts ws1 fs)"
  by (simp add: record_facts_def)

text \<open>
  The facts after recording: the old ones overridden by the recorded ones, a later entry
  for a key replacing an earlier one; only the key \<open>__proto__\<close> is never created.
\<close>

lemma map_of_record_facts:
  "map_of (record_facts ws fs) K =
     (if K = proto_key \<and> map_of fs K = None then None
      else (map_of fs ++ map_of (rev ws)) K)"
proof (induction ws arbitrary: fs)
  case Nil
  then show ?case by (auto simp: record_facts_def)
next
  case (Cons kv ws)
  show ?case
    unfolding record_facts_Cons Cons.IH
    by (auto simp: map_of_prop_assign map_add_def split: option.splits)
qed

lemma distinct_record_facts:
  "distinct (map fst fs) \<Longrightarrow> distinct (map fst (record_facts ws fs))"
  by (induction ws arbitrary: fs) (simp_all add: record_facts_def distinct_prop_assign)

lemma keys_record_facts:
  "fst ` set (record_facts ws fs) =
     fst ` set fs \<union> (fst ` set ws - (if proto_key \<in> fst ` set fs then {} else {proto_key}))"
proof (induction ws arbitrary: fs)
  case Nil
  then show ?case by (simp add: record_facts_def)
next
  case (Cons kv ws)
  show ?case
    unfolding record_facts_Cons Cons.IH
    by (auto simp: keys_prop_assign split: if_splits)
qed

lemma obj_get_not_inherited:
  "key \<notin> set inherited_keys \<Longrightarrow>
     obj_get ks key = (case map_of ks key of Some svc \<Rightarrow> Own svc | None \<Rightarrow> Absent)"
  by (simp add: obj_get_def)

lemma upsert_candidate_effect:
  assumes "storable js c"
  shows "\<exists>ks'. upsert_candidate js ts ks c = Inr ks'
           \<and> fst ` set ks' = insert (normalized_name js c) (fst ` set ks)
           \<and> (distinct (map fst ks) \<longrightarrow> distinct (map fst ks'))
           \<and> (\<forall>K. facts_of ks' K =
                 (if K = normalized_name js c
                  then record_facts (writes js c) (facts_of ks K) else facts_of ks K))"
proof -
  from assms obtain n hrs where n: "c_name c = Some n" and hrs: "c_hardResults c = Some hrs"
    by (auto simp: storable_def well_typed_candidate_def)
  have key: "normalized_name js c = trim (toLowerCase js n)"
    by (simp add: normalized_name_def n)
  with assms have own: "trim (toLowerCase js n) \<notin> set inherited_keys"
    by (simp add: storable_def)
  have folds: "fold (\<lambda>sr. prop_assign (ascii ''soft:'' @ ss_criterion sr) (soft_fact js sr))
                 (c_softScores c)
                 (fold (\<lambda>hr. prop_assign (hr_criterion hr) (hard_fact hr)) hrs fs)
               = record_facts (writes js c) fs" for fs
    by (simp add: record_facts_def writes_def hrs fold_map comp_def)
  obtain svc where
    up: "upsert_candidate js ts ks c = Inr (obj_set (normalized_name js c) svc ks)"
    and fs: "svc_facts svc = record_facts (writes js c) (facts_of ks (normalized_name js c))"
    by (cases "map_of ks (trim (toLowerCase js n))")
       (simp_all add: upsert_candidate_def n hrs Let_def folds key facts_of_def
          obj_get_not_inherited [OF own])
  have "facts_of (obj_set (normalized_name js c) svc ks) K =
          (if K = normalized_name js c
           then record_facts (writes js c) (facts_of ks K) else facts_of ks K)" for K
    by (simp add: facts_of_def map_of_obj_set fs)
  then show ?thesis
    using up by (simp add: keys_obj_set distinct_obj_set)
qed

text \<open>
  A candidate whose key is inherited and not an own property of \<open>knownServices\<close> is not
  filed: the round throws.
\<close>

lemma upsert_candidate_inherited:
  assumes "c_name c = Some n"
    and "trim (toLowerCase js n) \<in> set inherited_keys"
    and "map_of ks (trim (toLowerCase js n)) = None"
  shows "upsert_candidate js ts ks c = Inl (inherited_failure c)"
  using assms by (simp add: upsert_candidate_def obj_get_def Let_def)

lemma upsert_all_effect:
  assumes "list_all (storable js) cs"
  shows "\<exists>ks'. upsert_all js ts ks cs = Inr ks'
           \<and> fst ` set ks' = normalized_name js ` set cs \<union> fst ` set ks
           \<and> (distinct (map fst ks) \<longrightarrow> distinct (map fst ks'))
           \<and> (\<forall>K. facts_of ks' K =
                 record_facts (concat (map (writes js) (filter (\<lambda>c. normalized_name js c = K) cs)))
                   (facts_of ks K))"
  using assms
proof (induction cs arbitrary: ks)
  case Nil
  then show ?case by (simp add: record_facts_def)
next
  case (Cons c cs)
  from Cons.prems have c: "storable js c" and cs: "list_all (storable js) cs"
    by simp_all
  from upsert_candidate_effect [OF c, of ts ks] obtain ks1 where
    1: "upsert_candidate js ts ks c = Inr ks1"
    and k1: "fst ` set ks1 = insert (normalized_name js c) (fst ` set ks)"
    and d1: "distinct (map fst ks) \<longrightarrow> distinct (map fst ks1)"
    and f1: "\<And>K. facts_of ks1 K =
                 (if K = normalized_name js c
                  then record_facts (writes js c) (facts_of ks K) else facts_of ks K)"
    by blast
  from Cons.IH [OF cs, of ks1] obtain ks' where
    2: "upsert_all js ts ks1 cs = Inr ks'"
    and k2: "fst ` set ks' = normalized_name js ` set cs \<union> fst ` set ks1"
    and d2: "distinct (map fst ks1) \<longrightarrow> distinct (map fst ks')"
    and f2: "\<And>K. facts_of ks' K =
                 record_facts (concat (map (writes js) (filter (\<lambda>c. normalized_name js c = K) cs)))
                   (facts_of ks1 K)"
    by blast
  have "upsert_all js ts ks (c # cs) = Inr ks'" using 1 2 by simp
  moreover have "fst ` set ks' = normalized_name js ` set (c # cs) \<union> fst ` set ks"
    using k1 k2 by auto
  moreover have "distinct (map fst ks) \<longrightarrow> distinct (map fst ks')"
    using d1 d2 by blast
  moreover have "facts_of ks' K =
      record_facts (concat (map (writes js) (filter (\<lambda>c. normalized_name js c = K) (c # cs))))
        (facts_of ks K)" for K
    by (simp add: f1 f2 record_facts_append)
  ultimately show ?case by blast
qed

lemma entries_for_distinct:
  "distinct (map fst al) \<Longrightarrow> k \<in> fst ` set al \<Longrightarrow> length (entries_for k al) = 1"
proof (induction al)
  case Nil
  then show ?case by simp
next
  case (Cons e al)
  show ?case
  proof (cases "fst e = k")
    case True
    with Cons.prems have "k \<notin> fst ` set al" by auto
    then have "filter (\<lambda>e. fst e = k) al = []"
      by (auto simp: filter_empty_conv)
    with True show ?thesis by (simp add: entries_for_def)
  next
    case False
    with Cons show ?thesis by (auto simp: entries_for_def)
  qed
qed

lemma store_ok_facts_of:
  "store_ok store \<longleftrightarrow> distinct (map fst (knownServices store))
     \<and> (\<forall>K. distinct (map fst (facts_of (knownServices store) K)))"
proof (cases "distinct (map fst (knownServices store))")
  case False
  then show ?thesis by (simp add: store_ok_def)
next
  case True
  have "list_all (\<lambda>e. distinct (map fst (svc_facts (snd e)))) (knownServices store)
        \<longleftrightarrow> (\<forall>K. distinct (map fst (facts_of (knownServices store) K)))"
  proof
    assume a: "list_all (\<lambda>e. distinct (map fst (svc_facts (snd e)))) (knownServices store)"
    show "\<forall>K. distinct (map fst (facts_of (knownServices store) K))"
    proof
      fix K
      show "distinct (map fst (facts_of (knownServices store) K))"
      proof (cases "map_of (knownServices store) K")
        case None
        then show ?thesis by (simp add: facts_of_def)
      next
        case (Some svc)
        then have "(K, svc) \<in> set (knownServices store)" by (rule map_of_SomeD)
        with a have "distinct (map fst (svc_facts svc))"
          by (auto simp: list_all_iff)
        with Some show ?thesis by (simp add: facts_of_def)
      qed
    qed
  next
    assume a: "\<forall>K. distinct (map fst (facts_of (knownServices store) K))"
    show "list_all (\<lambda>e. distinct (map fst (svc_facts (snd e)))) (knownServices store)"
      unfolding list_all_iff
    proof
      fix e assume e: "e \<in> set (knownServices store)"
      then have "map_of (knownServices store) (fst e) = Some (snd e)"
        using True by simp
      then have "facts_of (knownServices store) (fst e) = svc_facts (snd e)"
        by (simp add: facts_of_def)
      with a show "distinct (map fst (svc_facts (snd e)))" by metis
    qed
  qed
  with True show ?thesis by (simp add: store_ok_def)
qed

lemma upsert_all_storable:
  "list_all (storable js) cs \<Longrightarrow> \<exists>ks'. upsert_all js ts ks cs = Inr ks'"
  using upsert_all_effect by blast

lemma js_slice_from_last:
  "0 < n \<Longrightarrow> js_slice_from (- int n) xs = drop (length xs - n) xs"
  by (auto simp: js_slice_from_def js_slice_def Let_def max_def nat_diff_distrib)

text \<open>
  Eviction. For a store that already holds 50 sessions, saving a session whose candidates
  can be filed succeeds and leaves exactly 50 sessions: the oldest one is dropped and the
  new session is the most recent.
\<close>

lemma saveSession_evicts_oldest:
  assumes full: "length (sessions (loadMemory f)) = 50"
    and typed: "list_all (storable js) (s_candidates session)"
  shows "\<exists>store'. saveSession js session f = Inr (Some store')
           \<and> length (sessions store') = 50
           \<and> sessions store' = tl (sessions (loadMemory f)) @ [session]"
proof -
  obtain ks' where ks':
    "upsert_all js (s_timestamp session) (knownServices (loadMemory f)) (s_candidates session)
       = Inr ks'"
    using upsert_all_storable [OF typed] by blast
  have "js_slice_from (- 50) (sessions (loadMemory f) @ [session])
          = drop 1 (sessions (loadMemory f) @ [session])"
    using js_slice_from_last [of 50 "sessions (loadMemory f) @ [session]"] full by simp
  also have "\<dots> = tl (sessions (loadMemory f)) @ [session]"
    using full by (cases "sessions (loadMemory f)") auto
  finally have sl: "js_slice_from (- 50) (sessions (loadMemory f) @ [session])
          = tl (sessions (loadMemory f)) @ [session]" .
  show ?thesis
    using ks' full sl by (simp add: saveSession_def Let_def saveMemory_def)
qed

lemma constructor_key:
  "trim (toLowerCase ascii_runtime (ascii ''Constructor'')) = ascii ''constructor''"
  by (simp add: ascii_runtime_def trim_def js_ws_def ascii_def)

lemma constructor_inherited: "ascii ''constructor'' \<in> set inherited_keys"
  by (simp add: inherited_keys_def)

text \<open>
  Claim C7 says that saving one more session to a store that holds 50 sessions leaves
  exactly 50 sessions, the new one as the most recent and the oldest one dropped. Here the
  session holds a candidate of the name \<open>Constructor\<close>, which conforms to types.ts. Its
  key is \<open>constructor\<close>: \<open>store.knownServices[key]\<close> finds the inherited property, no
  entry is created, and \<open>saveSession\<close> throws a TypeError at the first fact, before it
  reaches the eviction and \<open>saveMemory\<close>. The file keeps the 50 old sessions and the new
  one is not saved. The same session with a candidate of the name \<open>Acme SMS\<close> is saved, and
  the oldest session is dropped.
\<close>

theorem saveSession_inherited_name_not_saved:
  "length (sessions (loadMemory full_store)) = 50
   \<and> well_typed_candidate constructor_candidate
   \<and> normalized_name ascii_runtime constructor_candidate = ascii ''constructor''
   \<and> saveSession ascii_runtime (sms_session [constructor_candidate]) full_store
       = Inl (TypeError (ascii ''Cannot set properties of undefined (setting ''
                          @ [39] @ ascii ''coverage'' @ [39] @ ascii '')''))
   \<and> (\<exists>store'. saveSession ascii_runtime (sms_session [acme_candidate]) full_store
                   = Inr (Some store')
         \<and> length (sessions store') = 50
         \<and> sessions store' = tl (sessions (loadMemory full_store))
                               @ [sms_session [acme_candidate]])"
proof -
  have 1: "length (sessions (loadMemory full_store)) = 50"
    by (simp add: full_store_def loadMemory_def)
  have 2: "well_typed_candidate constructor_candidate"
    by (simp add: well_typed_candidate_def constructor_candidate_def acme_candidate_def)
  have 3: "normalized_name ascii_runtime constructor_candidate = ascii ''constructor''"
    by (simp add: normalized_name_def constructor_candidate_def constructor_key)
  have "upsert_candidate ascii_runtime ts [] constructor_candidate
          = Inl (inherited_failure constructor_candidate)" for ts
    by (rule upsert_candidate_inherited [where n = "ascii ''Constructor''"])
       (simp_all add: constructor_candidate_def constructor_key constructor_inherited)
  moreover have "inherited_failure constructor_candidate = cannot_set (ascii ''coverage'')"
    by (simp add: inherited_failure_def constructor_candidate_def acme_candidate_def)
  ultimately have 4: "saveSession ascii_runtime (sms_session [constructor_candidate]) full_store
       = Inl (cannot_set (ascii ''coverage''))"
    by (simp add: saveSession_def Let_def full_store_def loadMemory_def sms_session_def)
  from saveSession_evicts_oldest [OF 1, of ascii_runtime "sms_session [acme_candidate]"]
  have 5: "\<exists>store'. saveSession ascii_runtime (sms_session [acme_candidate]) full_store
                     = Inr (Some store')
             \<and> length (sessions store') = 50
             \<and> sessions store' = tl (sessions (loadMemory full_store))
                                   @ [sms_session [acme_candidate]]"
    by (simp add: sms_session_def storable_def well_typed_candidate_def normalized_name_def
          acme_candidate_def ascii_runtime_def trim_def js_ws_def inherited_keys_def ascii_def)
  from 1 2 3 4 5 show ?thesis by (simp add: cannot_set_def)
qed

lemma insert_by_insort:
  "insert_by by_score_desc x xs = insort_key (\<lambda>s. - int (snd s)) x xs"
  by (induction xs) (auto simp: by_score_desc_def)

lemma js_sort_sort_key: "js_sort by_score_desc xs = sort_key (\<lambda>s. - int (snd s)) xs"
  by (induction xs) (simp_all add: insert_by_insort)

lemma js_slice_take: "0 \<le> m \<Longrightarrow> js_slice 0 m xs = take (nat m) xs"
  by (auto simp: js_slice_def Let_def min_def)

lemma sorted_desc:
  "sorted (map (\<lambda>s. - int (snd s)) xs) \<Longrightarrow> sorted_wrt (\<lambda>a b. snd b \<le> snd a) xs"
  by (induction xs) auto

lemma overlap_pos:
  "0 < overlap js tw s \<longleftrightarrow>
     (\<exists>w \<in> set tw. w \<in> set (extractKeywords js (s_task s @ ascii '' '' @ s_conclusion s)))"
  by (auto simp: overlap_def Let_def filter_empty_conv)

lemma four_relevant:
  "relevant ascii_runtime (loadMemory four_sessions) (ascii ''find an SMS provider in Argentina'') 2
     = [(argentina_session, 2), (voice_session, 2)]"
  by (simp add: relevant_def scored_def overlap_def extractKeywords_def ascii_runtime_def
        ascii_def kw_char_def js_ws_def stopWords_def brazil_session_def argentina_session_def
        hosting_session_def voice_session_def sms_session_def js_slice_def by_score_desc_def
        Let_def four_sessions_def loadMemory_def)

lemma four_keywords:
  "extractKeywords ascii_runtime (ascii ''find an SMS provider in Argentina'')
     = [ascii ''provider'', ascii ''argentina'']"
  by (simp add: extractKeywords_def ascii_runtime_def ascii_def kw_char_def js_ws_def
        stopWords_def)

lemma four_services:
  "known_services_context ascii_runtime (loadMemory four_sessions)
     (extractKeywords ascii_runtime (ascii ''find an SMS provider in Argentina''))
   = ascii ''## KNOWN SERVICES'' @ nl @ nl
     @ ascii ''**acme sms** (https://acme.example)'' @ nl
     @ ascii ''  Last checked: 2025-01-01'' @ nl
     @ ascii ''  Previous verdict: pass'' @ nl
     @ ascii ''  coverage: YES '' @ dash @ ascii '' routes to Argentina'' @ nl @ nl"
  unfolding four_keywords
  by (simp add: known_services_context_def four_sessions_def loadMemory_def
        service_relevant_def render_service_def extractKeywords_def ascii_runtime_def
        kw_char_def js_ws_def stopWords_def js_slice_def Let_def ascii_def nl_def dash_def)

lemma four_blocks:
  "render_all (render_session ascii_runtime) [(argentina_session, 2), (voice_session, 2)]
     = Inr (ascii ''### Session: 2025-01-01'' @ nl
            @ ascii ''Task: SMS provider for Argentina'' @ nl
            @ ascii ''Conclusion: none found'' @ nl @ nl
            @ ascii ''### Session: 2025-01-01'' @ nl
            @ ascii ''Task: Argentina voice provider'' @ nl
            @ ascii ''Conclusion: none found'' @ nl @ nl)"
  by (simp add: render_session_def argentina_session_def voice_session_def sms_session_def
        js_slice_def Let_def ascii_def)

lemma four_context:
  "getMemoryContext ascii_runtime four_sessions (ascii ''find an SMS provider in Argentina'')
     (Some 2)
   = Inr (ascii ''## RELEVANT PAST RESEARCH'' @ nl @ nl
          @ ascii ''### Session: 2025-01-01'' @ nl
          @ ascii ''Task: SMS provider for Argentina'' @ nl
          @ ascii ''Conclusion: none found'' @ nl @ nl
          @ ascii ''### Session: 2025-01-01'' @ nl
          @ ascii ''Task: Argentina voice provider'' @ nl
          @ ascii ''Conclusion: none found'' @ nl @ nl
          @ ascii ''## KNOWN SERVICES'' @ nl @ nl
          @ ascii ''**acme sms** (https://acme.example)'' @ nl
          @ ascii ''  Last checked: 2025-01-01'' @ nl
          @ ascii ''  Previous verdict: pass'' @ nl
          @ ascii ''  coverage: YES '' @ dash @ ascii '' routes to Argentina'' @ nl @ nl)"
proof -
  have store: "sessions (loadMemory four_sessions)
                 = [brazil_session, argentina_session, hosting_session, voice_session]"
    by (simp add: four_sessions_def loadMemory_def)
  show ?thesis
    unfolding getMemoryContext_def Let_def option.case four_relevant four_blocks four_services
      store
    by (simp add: nl_def)
qed

lemma render_all_blocks:
  "map f xs = map Inr blocks \<Longrightarrow> render_all f xs = Inr (concat blocks)"
  by (induction xs arbitrary: blocks) auto

lemma render_session_block:
  assumes "render_session js r = Inr b"
  shows "\<exists>rest. b = ascii ''### Session: '' @ js_slice 0 10 (s_timestamp (fst r)) @ nl
                    @ ascii ''Task: '' @ s_task (fst r) @ nl
                    @ ascii ''Conclusion: '' @ s_conclusion (fst r) @ nl @ rest"
  using assms by (auto simp: render_session_def Let_def split: sum.splits)

text \<open>
  Claim C8. For a non-negative \<open>maxSessions\<close>, the context that \<open>getMemoryContext\<close> returns
  is built from the first \<open>maxSessions\<close> entries of a ranking that holds exactly the stored
  sessions of positive keyword overlap (the number of task keywords found among the
  keywords of the session's task and conclusion), in descending order of overlap, sessions
  of equal overlap in the order of the store. Unless the store is empty, the context is the
  heading of the past research followed by the blocks of the selected sessions, one after
  the other in the order of the ranking, each block starting with the date, the task and
  the conclusion of its session, and then by the known services; when no session is
  selected the heading is left out, and an empty context is replaced by a fixed sentence.
  Rendering a stored candidate that lacks a field throws. The default of \<open>maxSessions\<close>
  is 5.
\<close>

theorem getMemoryContext_selection:
  assumes "0 \<le> maxSessions"
  shows "\<exists>ranked selected.
           mset ranked = mset (filter (\<lambda>s. 0 < snd s)
                                 (scored js (extractKeywords js task) (sessions (loadMemory f))))
         \<and> sorted_wrt (\<lambda>a b. snd b \<le> snd a) ranked
         \<and> (\<forall>n. filter (\<lambda>s. snd s = n) ranked
                  = filter (\<lambda>s. snd s = n \<and> 0 < n)
                      (scored js (extractKeywords js task) (sessions (loadMemory f))))
         \<and> map fst (scored js (extractKeywords js task) (sessions (loadMemory f)))
             = sessions (loadMemory f)
         \<and> (\<forall>p \<in> set (scored js (extractKeywords js task) (sessions (loadMemory f))).
               snd p = overlap js (extractKeywords js task) (fst p)
             \<and> (0 < snd p \<longleftrightarrow>
                  (\<exists>w \<in> set (extractKeywords js task).
                     w \<in> set (extractKeywords js (s_task (fst p) @ ascii '' ''
                                                    @ s_conclusion (fst p))))))
         \<and> selected = take (nat maxSessions) ranked
         \<and> relevant js (loadMemory f) task maxSessions = selected
         \<and> getMemoryContext js f task (Some maxSessions) =
             (if sessions (loadMemory f) = [] \<and> knownServices (loadMemory f) = []
              then Inr (ascii ''No prior research history.'')
              else case render_all (render_session js) selected of
                     Inl e \<Rightarrow> Inl e
                   | Inr past \<Rightarrow>
                       Inr (if selected = []
                              \<and> known_services_context js (loadMemory f)
                                   (extractKeywords js task) = []
                            then ascii ''No relevant prior research found for this task.''
                            else (if selected = [] then []
                                  else ascii ''## RELEVANT PAST RESEARCH'' @ nl @ nl @ past)
                                 @ known_services_context js (loadMemory f)
                                     (extractKeywords js task)))
         \<and> (\<forall>blocks. map (render_session js) selected = map Inr blocks \<longrightarrow>
               render_all (render_session js) selected = Inr (concat blocks))
         \<and> (\<forall>r b. render_session js r = Inr b \<longrightarrow>
               (\<exists>rest. b = ascii ''### Session: '' @ js_slice 0 10 (s_timestamp (fst r)) @ nl
                           @ ascii ''Task: '' @ s_task (fst r) @ nl
                           @ ascii ''Conclusion: '' @ s_conclusion (fst r) @ nl @ rest))
         \<and> getMemoryContext js f task None = getMemoryContext js f task (Some 5)"
proof -
  let ?sc = "scored js (extractKeywords js task) (sessions (loadMemory f))"
  let ?key = "\<lambda>s::research_session \<times> nat. - int (snd s)"
  let ?R = "js_sort by_score_desc (filter (\<lambda>s. 0 < snd s) ?sc)"
  let ?S = "take (nat maxSessions) ?R"
  have R: "?R = sort_key ?key (filter (\<lambda>s. 0 < snd s) ?sc)"
    by (rule js_sort_sort_key)
  have 1: "relevant js (loadMemory f) task maxSessions = ?S"
    using assms by (simp add: relevant_def js_slice_take)
  have 2: "mset ?R = mset (filter (\<lambda>s. 0 < snd s) ?sc)"
    by (simp add: R)
  have 3: "sorted_wrt (\<lambda>a b. snd b \<le> snd a) ?R"
    unfolding R by (rule sorted_desc) (rule sorted_sort_key)
  have 4: "filter (\<lambda>s. snd s = n) ?R = filter (\<lambda>s. snd s = n \<and> 0 < n) ?sc" for n
  proof -
    have "filter (\<lambda>s. snd s = n) ?R = filter (\<lambda>s. ?key s = - int n) ?R"
      by (rule filter_cong) auto
    also have "\<dots> = filter (\<lambda>s. ?key s = - int n) (filter (\<lambda>s. 0 < snd s) ?sc)"
      unfolding R by (rule sort_key_stable)
    also have "\<dots> = filter (\<lambda>s. snd s = n \<and> 0 < n) ?sc"
      by (auto intro: filter_cong)
    finally show ?thesis .
  qed
  have 5: "map fst ?sc = sessions (loadMemory f)"
    by (simp add: scored_def comp_def)
  have 6: "\<forall>p \<in> set ?sc. snd p = overlap js (extractKeywords js task) (fst p)
             \<and> (0 < snd p \<longleftrightarrow>
                  (\<exists>w \<in> set (extractKeywords js task).
                     w \<in> set (extractKeywords js (s_task (fst p) @ ascii '' ''
                                                    @ s_conclusion (fst p)))))"
    by (auto simp: scored_def overlap_pos)
  have 7: "getMemoryContext js f task None = getMemoryContext js f task (Some 5)"
    by (simp add: getMemoryContext_def)
  have 8: "getMemoryContext js f task (Some maxSessions) =
             (if sessions (loadMemory f) = [] \<and> knownServices (loadMemory f) = []
              then Inr (ascii ''No prior research history.'')
              else case render_all (render_session js) ?S of
                     Inl e \<Rightarrow> Inl e
                   | Inr past \<Rightarrow>
                       Inr (if ?S = []
                              \<and> known_services_context js (loadMemory f)
                                   (extractKeywords js task) = []
                            then ascii ''No relevant prior research found for this task.''
                            else (if ?S = [] then []
                                  else ascii ''## RELEVANT PAST RESEARCH'' @ nl @ nl @ past)
                                 @ known_services_context js (loadMemory f)
                                     (extractKeywords js task)))"
    unfolding getMemoryContext_def Let_def option.case 1
    by (auto simp: nl_def ascii_def split: sum.splits)
  have 9: "\<forall>blocks. map (render_session js) ?S = map Inr blocks \<longrightarrow>
               render_all (render_session js) ?S = Inr (concat blocks)"
    by (simp add: render_all_blocks)
  have 10: "\<forall>r b. render_session js r = Inr b \<longrightarrow>
               (\<exists>rest. b = ascii ''### Session: '' @ js_slice 0 10 (s_timestamp (fst r)) @ nl
                           @ ascii ''Task: '' @ s_task (fst r) @ nl
                           @ ascii ''Conclusion: '' @ s_conclusion (fst r) @ nl @ rest)"
    using render_session_block by blast
  from 1 2 3 4 5 6 7 8 9 10 show ?thesis by blast
qed

theorem getMemoryContext_selection_witness:
  "(0::int) \<le> 2
   \<and> getMemoryContext ascii_runtime four_sessions (ascii ''find an SMS provider in Argentina'')
       (Some 2)
     = Inr (ascii ''## RELEVANT PAST RESEARCH'' @ nl @ nl
            @ ascii ''### Session: 2025-01-01'' @ nl
            @ ascii ''Task: SMS provider for Argentina'' @ nl
            @ ascii ''Conclusion: none found'' @ nl @ nl
            @ ascii ''### Session: 2025-01-01'' @ nl
            @ ascii ''Task: Argentina voice provider'' @ nl
            @ ascii ''Conclusion: none found'' @ nl @ nl
            @ ascii ''## KNOWN SERVICES'' @ nl @ nl
            @ ascii ''**acme sms** (https://acme.example)'' @ nl
            @ ascii ''  Last checked: 2025-01-01'' @ nl
            @ ascii ''  Previous verdict: pass'' @ nl
            @ ascii ''  coverage: YES '' @ dash @ ascii '' routes to Argentina'' @ nl @ nl)
   \<and> sessions (loadMemory four_sessions)
       = [brazil_session, argentina_session, hosting_session, voice_session]
   \<and> (\<exists>ranked. take (nat 2) ranked = [(argentina_session, 2), (voice_session, 2)]
         \<and> mset ranked = mset (filter (\<lambda>s. 0 < snd s)
                 (scored ascii_runtime
                    (extractKeywords ascii_runtime (ascii ''find an SMS provider in Argentina''))
                    (sessions (loadMemory four_sessions))))
         \<and> sorted_wrt (\<lambda>a b. snd b \<le> snd a) ranked
         \<and> getMemoryContext ascii_runtime four_sessions
              (ascii ''find an SMS provider in Argentina'') (Some 2)
            = (case render_all (render_session ascii_runtime) (take (nat 2) ranked) of
                 Inl e \<Rightarrow> Inl e
               | Inr past \<Rightarrow>
                   Inr (ascii ''## RELEVANT PAST RESEARCH'' @ nl @ nl @ past
                        @ known_services_context ascii_runtime (loadMemory four_sessions)
                            (extractKeywords ascii_runtime
                               (ascii ''find an SMS provider in Argentina'')))))"
proof -
  let ?task = "ascii ''find an SMS provider in Argentina''"
  have store: "sessions (loadMemory four_sessions)
                 = [brazil_session, argentina_session, hosting_session, voice_session]"
    by (simp add: four_sessions_def loadMemory_def)
  from getMemoryContext_selection [of 2 ascii_runtime ?task four_sessions]
  obtain ranked selected where
    m: "mset ranked = mset (filter (\<lambda>s. 0 < snd s)
                 (scored ascii_runtime (extractKeywords ascii_runtime ?task)
                    (sessions (loadMemory four_sessions))))"
    and so: "sorted_wrt (\<lambda>a b. snd b \<le> snd a) ranked"
    and sel: "selected = take (nat 2) ranked"
    and rel: "relevant ascii_runtime (loadMemory four_sessions) ?task 2 = selected"
    and ctx: "getMemoryContext ascii_runtime four_sessions ?task (Some 2) =
             (if sessions (loadMemory four_sessions) = []
                 \<and> knownServices (loadMemory four_sessions) = []
              then Inr (ascii ''No prior research history.'')
              else case render_all (render_session ascii_runtime) selected of
                     Inl e \<Rightarrow> Inl e
                   | Inr past \<Rightarrow>
                       Inr (if selected = []
                              \<and> known_services_context ascii_runtime (loadMemory four_sessions)
                                   (extractKeywords ascii_runtime ?task) = []
                            then ascii ''No relevant prior research found for this task.''
                            else (if selected = [] then []
                                  else ascii ''## RELEVANT PAST RESEARCH'' @ nl @ nl @ past)
                                 @ known_services_context ascii_runtime
                                     (loadMemory four_sessions)
                                     (extractKeywords ascii_runtime ?task)))"
    by auto
  from rel sel have t: "take (nat 2) ranked = [(argentina_session, 2), (voice_session, 2)]"
    by (simp add: four_relevant)
  from ctx have c: "getMemoryContext ascii_runtime four_sessions ?task (Some 2)
            = (case render_all (render_session ascii_runtime) (take (nat 2) ranked) of
                 Inl e \<Rightarrow> Inl e
               | Inr past \<Rightarrow>
                   Inr (ascii ''## RELEVANT PAST RESEARCH'' @ nl @ nl @ past
                        @ known_services_context ascii_runtime (loadMemory four_sessions)
                            (extractKeywords ascii_runtime ?task)))"
    unfolding sel t by (simp add: store split: sum.splits)
  from t m so four_context store c show ?thesis by auto
qed

text \<open>
  Upsert. Within one call of \<open>saveSession\<close> on a session whose candidates can be filed,
  every candidate is filed under exactly one known-service entry, the one of its normalized
  name, so that candidates of equal normalized name share an entry; the fact map of an
  entry is the old one overridden by the recorded results, a later result for a criterion
  replacing the earlier one, and every recorded criterion other than \<open>__proto__\<close> has
  exactly one fact entry.
\<close>

lemma saveSession_upsert:
  assumes typed: "list_all (storable js) (s_candidates session)"
    and ok: "store_ok (loadMemory f)"
  shows "\<exists>store'. saveSession js session f = Inr (Some store')
           \<and> store_ok store'
           \<and> (\<forall>c \<in> set (s_candidates session).
                 length (entries_for (normalized_name js c) (knownServices store')) = 1)
           \<and> (\<forall>K. (\<forall>k. map_of (facts_of (knownServices store') K) k
                        = (if k = proto_key
                              \<and> map_of (facts_of (knownServices (loadMemory f)) K) k = None
                           then None
                           else (map_of (facts_of (knownServices (loadMemory f)) K)
                                 ++ map_of (rev (session_writes js session K))) k))
                  \<and> (\<forall>w \<in> set (session_writes js session K). fst w \<noteq> proto_key \<longrightarrow>
                        length (entries_for (fst w) (facts_of (knownServices store') K)) = 1))"
proof -
  let ?ks = "knownServices (loadMemory f)"
  from ok have dk: "distinct (map fst ?ks)"
    and df: "\<And>K. distinct (map fst (facts_of ?ks K))"
    by (simp_all add: store_ok_facts_of)
  from upsert_all_effect [OF typed, of "s_timestamp session" ?ks] dk obtain ks' where
    up: "upsert_all js (s_timestamp session) ?ks (s_candidates session) = Inr ks'"
    and keys: "fst ` set ks' = normalized_name js ` set (s_candidates session) \<union> fst ` set ?ks"
    and dk': "distinct (map fst ks')"
    and fs: "\<And>K. facts_of ks' K = record_facts (session_writes js session K) (facts_of ?ks K)"
    unfolding session_writes_def by blast
  define store' where
    "store' = \<lparr>sessions = (if length (sessions (loadMemory f) @ [session]) > 50
                            then js_slice_from (- 50) (sessions (loadMemory f) @ [session])
                            else sessions (loadMemory f) @ [session]),
               knownServices = ks'\<rparr>"
  have ks: "knownServices store' = ks'" by (simp add: store'_def)
  have 1: "saveSession js session f = Inr (Some store')"
    using up by (simp add: saveSession_def Let_def saveMemory_def store'_def)
  have df': "distinct (map fst (facts_of ks' K))" for K
    by (simp add: fs distinct_record_facts df)
  have 2: "store_ok store'"
    by (simp add: store_ok_facts_of ks dk' df')
  have 3: "\<forall>c \<in> set (s_candidates session).
             length (entries_for (normalized_name js c) (knownServices store')) = 1"
  proof
    fix c assume "c \<in> set (s_candidates session)"
    then have "normalized_name js c \<in> fst ` set ks'"
      unfolding keys by blast
    then show "length (entries_for (normalized_name js c) (knownServices store')) = 1"
      unfolding ks by (rule entries_for_distinct [OF dk'])
  qed
  have 4: "map_of (facts_of (knownServices store') K) k
             = (if k = proto_key \<and> map_of (facts_of ?ks K) k = None then None
                else (map_of (facts_of ?ks K) ++ map_of (rev (session_writes js session K))) k)"
    for K k
    unfolding ks fs by (rule map_of_record_facts)
  have 5: "\<forall>w \<in> set (session_writes js session K). fst w \<noteq> proto_key \<longrightarrow>
             length (entries_for (fst w) (facts_of (knownServices store') K)) = 1" for K
  proof (intro ballI impI)
    fix w assume "w \<in> set (session_writes js session K)" and "fst w \<noteq> proto_key"
    then have "fst w \<in> fst ` set (facts_of ks' K)"
      by (auto simp: fs keys_record_facts)
    then show "length (entries_for (fst w) (facts_of (knownServices store') K)) = 1"
      unfolding ks by (rule entries_for_distinct [OF df'])
  qed
  from 1 2 3 4 5 show ?thesis by blast
qed

lemma acme_key:
  "trim (toLowerCase ascii_runtime (ascii ''Acme SMS'')) = ascii ''acme sms''"
  "trim (toLowerCase ascii_runtime (ascii '' ACME sms '')) = ascii ''acme sms''"
  by (simp_all add: ascii_runtime_def trim_def js_ws_def ascii_def)

lemma acme_own: "obj_get ks (ascii ''acme sms'')
                   = (case map_of ks (ascii ''acme sms'') of Some svc \<Rightarrow> Own svc | None \<Rightarrow> Absent)"
  by (rule obj_get_not_inherited) (simp add: inherited_keys_def)

lemma not_index: "\<not> is_index (ascii ''acme sms'')" "\<not> is_index (ascii ''coverage'')"
  by (simp_all add: is_index_def is_digit_def ascii_def)

lemma ascii_join:
  "ascii a @ ascii b = ascii (a @ b)" "ascii a @ ascii b @ r = ascii (a @ b) @ r"
  by (simp_all add: ascii_def)

lemma acme_storable: "storable ascii_runtime acme_candidate"
  by (simp add: storable_def well_typed_candidate_def normalized_name_def acme_candidate_def
        acme_key inherited_keys_def)

lemma acme_filed:
  "upsert_candidate ascii_runtime ts [] acme_candidate =
     Inr [(ascii ''acme sms'',
           \<lparr>svc_url = None, svc_lastChecked = ts,
            svc_facts = [(ascii ''coverage'', ascii ''YES '' @ dash @ ascii '' direct routes'')],
            svc_verdict = Some (ascii ''pass''), svc_notes = []\<rparr>)]"
  by (simp add: upsert_candidate_def acme_candidate_def acme_key acme_own proto_key_def
        prop_assign_def obj_set_def not_index hard_fact_def Let_def ascii_join)

lemma acme_filed_again:
  "upsert_candidate ascii_runtime ts
     [(ascii ''acme sms'',
       \<lparr>svc_url = None, svc_lastChecked = ts,
        svc_facts = [(ascii ''coverage'', ascii ''YES '' @ dash @ ascii '' direct routes'')],
        svc_verdict = Some (ascii ''pass''), svc_notes = []\<rparr>)] acme_again =
     Inr [(ascii ''acme sms'',
           \<lparr>svc_url = None, svc_lastChecked = ts,
            svc_facts = [(ascii ''coverage'', ascii ''NO '' @ dash @ ascii '' resold routes'')],
            svc_verdict = Some (ascii ''fail''), svc_notes = []\<rparr>)]"
  by (simp add: upsert_candidate_def acme_candidate_def acme_again_def acme_key acme_own
        proto_key_def prop_assign_def obj_set_def not_index hard_fact_def Let_def ascii_join)

lemma proto_criterion_filed:
  "upsert_candidate ascii_runtime ts [] proto_criterion_candidate =
     Inr [(ascii ''acme sms'',
           \<lparr>svc_url = None, svc_lastChecked = ts, svc_facts = [],
            svc_verdict = Some (ascii ''pass''), svc_notes = []\<rparr>)]"
  by (simp add: upsert_candidate_def proto_criterion_candidate_def acme_candidate_def acme_key
        acme_own proto_key_def prop_assign_def obj_set_def not_index hard_fact_def Let_def)

text \<open>
  Claim C9 says that, within one call of \<open>saveSession\<close>, two candidates of one normalized
  name upsert one known-service entry, and that two results for one criterion leave exactly
  one fact entry for it. The upsert indexes plain objects, and the words that a plain
  object inherits are not upserted. Here two candidates of the names \<open>Constructor\<close> and
  \<open> constructor \<close>, of one normalized name, get no entry: the lookup finds the inherited
  \<open>constructor\<close>, and the call throws at the first fact. And two results for a criterion
  of the name \<open>__proto__\<close> leave no fact entry for it: the assignment reaches the inherited
  setter, which ignores a string. For other words the upsert does what the claim says: of
  the candidates \<open>Acme SMS\<close> and \<open> ACME sms \<close>, with one result each for the criterion
  \<open>coverage\<close>, one entry \<open>acme sms\<close> holds one fact, the later result.
\<close>

theorem inherited_keys_not_upserted:
  "normalized_name ascii_runtime constructor_candidate = ascii ''constructor''
   \<and> normalized_name ascii_runtime constructor_again = ascii ''constructor''
   \<and> list_all well_typed_candidate [constructor_candidate, constructor_again]
   \<and> saveSession ascii_runtime (sms_session [constructor_candidate, constructor_again]) None
       = Inl (TypeError (ascii ''Cannot set properties of undefined (setting ''
                          @ [39] @ ascii ''coverage'' @ [39] @ ascii '')''))
   \<and> saveSession ascii_runtime (sms_session [proto_criterion_candidate]) None
       = Inr (Some \<lparr>sessions = [sms_session [proto_criterion_candidate]],
                    knownServices =
                      [(ascii ''acme sms'',
                        \<lparr>svc_url = None, svc_lastChecked = ascii ''2025-01-01T00:00:00.000Z'',
                         svc_facts = [], svc_verdict = Some (ascii ''pass''),
                         svc_notes = []\<rparr>)]\<rparr>)
   \<and> length (entries_for (ascii ''__proto__'')
               (record_facts (writes ascii_runtime proto_criterion_candidate) [])) = 0
   \<and> saveSession ascii_runtime (sms_session [acme_candidate, acme_again]) None
       = Inr (Some \<lparr>sessions = [sms_session [acme_candidate, acme_again]],
                    knownServices =
                      [(ascii ''acme sms'',
                        \<lparr>svc_url = None, svc_lastChecked = ascii ''2025-01-01T00:00:00.000Z'',
                         svc_facts = [(ascii ''coverage'',
                                       ascii ''NO '' @ dash @ ascii '' resold routes'')],
                         svc_verdict = Some (ascii ''fail''), svc_notes = []\<rparr>)]\<rparr>)"
proof -
  have 1: "normalized_name ascii_runtime constructor_candidate = ascii ''constructor''"
    by (simp add: normalized_name_def constructor_candidate_def constructor_key)
  have 2: "normalized_name ascii_runtime constructor_again = ascii ''constructor''"
    by (simp add: normalized_name_def constructor_again_def constructor_candidate_def
          ascii_runtime_def trim_def js_ws_def ascii_def)
  have 3: "list_all well_typed_candidate [constructor_candidate, constructor_again]"
    by (simp add: well_typed_candidate_def constructor_again_def constructor_candidate_def
          acme_candidate_def)
  have "upsert_candidate ascii_runtime ts [] constructor_candidate
          = Inl (inherited_failure constructor_candidate)" for ts
    by (rule upsert_candidate_inherited [where n = "ascii ''Constructor''"])
       (simp_all add: constructor_candidate_def constructor_key constructor_inherited)
  moreover have "inherited_failure constructor_candidate = cannot_set (ascii ''coverage'')"
    by (simp add: inherited_failure_def constructor_candidate_def acme_candidate_def)
  ultimately have 4:
    "saveSession ascii_runtime (sms_session [constructor_candidate, constructor_again]) None
       = Inl (TypeError (ascii ''Cannot set properties of undefined (setting ''
                          @ [39] @ ascii ''coverage'' @ [39] @ ascii '')''))"
    by (simp add: saveSession_def Let_def loadMemory_def sms_session_def cannot_set_def)
  have pk: "ascii ''__proto__'' = proto_key"
    by (simp add: proto_key_def)
  have 5: "saveSession ascii_runtime (sms_session [proto_criterion_candidate]) None
       = Inr (Some \<lparr>sessions = [sms_session [proto_criterion_candidate]],
                    knownServices =
                      [(ascii ''acme sms'',
                        \<lparr>svc_url = None, svc_lastChecked = ascii ''2025-01-01T00:00:00.000Z'',
                         svc_facts = [], svc_verdict = Some (ascii ''pass''),
                         svc_notes = []\<rparr>)]\<rparr>)"
    by (simp add: saveSession_def loadMemory_def saveMemory_def sms_session_def
          proto_criterion_filed)
  have 6: "length (entries_for (ascii ''__proto__'')
               (record_facts (writes ascii_runtime proto_criterion_candidate) [])) = 0"
    by (simp add: record_facts_def writes_def proto_criterion_candidate_def acme_candidate_def
          pk prop_assign_def entries_for_def)
  have 7: "saveSession ascii_runtime (sms_session [acme_candidate, acme_again]) None
       = Inr (Some \<lparr>sessions = [sms_session [acme_candidate, acme_again]],
                    knownServices =
                      [(ascii ''acme sms'',
                        \<lparr>svc_url = None, svc_lastChecked = ascii ''2025-01-01T00:00:00.000Z'',
                         svc_facts = [(ascii ''coverage'',
                                       ascii ''NO '' @ dash @ ascii '' resold routes'')],
                         svc_verdict = Some (ascii ''fail''), svc_notes = []\<rparr>)]\<rparr>)"
    by (simp add: saveSession_def loadMemory_def saveMemory_def sms_session_def
          acme_filed acme_filed_again)
  from 1 2 3 4 5 6 7 show ?thesis by blast
qed

section \<open>Properties of the history compressor\<close>

lemma js_slice_middle:
  assumes "0 < k"
  shows "js_slice 1 (- (k * 2)) xs = take (length xs - 1 - nat (k * 2)) (drop 1 xs)"
  using assms
  by (cases xs) (auto simp: js_slice_def Let_def max_def min_def nat_diff_distrib nat_add_distrib)

lemma js_slice_middle_0: "js_slice 1 0 xs = []"
  by (simp add: js_slice_def Let_def)

lemma js_slice_tail:
  assumes "0 < k"
  shows "js_slice_from (- (k * 2)) xs = drop (length xs - nat (k * 2)) xs"
  using assms
  by (auto simp: js_slice_from_def js_slice_def Let_def max_def min_def nat_diff_distrib)

text \<open>
  Claim C6. When compression takes place (\<open>keepLastExchanges\<close> is not negative, the
  conversation has at least 6 turns, its middle section at least 4, and the summarizer
  answers), the result is exactly: the first turn of the input; an acknowledgement turn of
  the assistant; a turn of the user that holds the summary between a heading, which counts
  the turns of the middle section, and a closing line; and the last \<open>keepLastExchanges * 2\<close>
  turns of the input. The middle section that is summarized is what lies between the first
  turn and those last turns.
\<close>

theorem compressHistory_shape:
  assumes k: "0 \<le> k"
    and long: "6 \<le> length msgs"
    and mid: "4 \<le> length (js_slice 1 (- (k * 2)) msgs)"
    and ok: "summarize env it (serializeMessages (runtime env) (js_slice 1 (- (k * 2)) msgs))
               = Some summary"
  shows "compressHistory env it msgs k =
           [hd msgs,
            \<lparr>m_role = Assistant,
             m_content = Str (ascii ''I'' @ [39] @ ascii
               ''ll begin researching this. Let me start by reviewing my progress so far.'')\<rparr>,
            \<lparr>m_role = User,
             m_content = Str (ascii ''[RESEARCH PROGRESS SUMMARY '' @ [8212]
               @ ascii '' compressed from '' @ show_nat (length msgs - 1 - nat (k * 2))
               @ ascii '' previous exchanges]'' @ [10, 10] @ summary @ [10, 10]
               @ ascii ''[END SUMMARY '' @ [8212] @ ascii '' continuing research from here]'')\<rparr>]
           @ drop (length msgs - nat (k * 2)) msgs
         \<and> length (drop (length msgs - nat (k * 2)) msgs) = nat (k * 2)
         \<and> js_slice 1 (- (k * 2)) msgs = take (length msgs - 1 - nat (k * 2)) (drop 1 msgs)"
proof -
  have kpos: "0 < k"
  proof (rule ccontr)
    assume "\<not> 0 < k"
    with k have "k = 0" by simp
    with mid show False by (simp add: js_slice_middle_0)
  qed
  have m: "js_slice 1 (- (k * 2)) msgs = take (length msgs - 1 - nat (k * 2)) (drop 1 msgs)"
    using js_slice_middle [OF kpos] .
  have len: "nat (k * 2) + 5 \<le> length msgs"
    using mid m by simp
  have lm: "length (js_slice 1 (- (k * 2)) msgs) = length msgs - 1 - nat (k * 2)"
    using m len by simp
  have hd0: "msgs ! 0 = hd msgs"
    using long by (cases msgs) auto
  have "compressHistory env it msgs k =
          [msgs ! 0, ack_turn, summary_turn (length (js_slice 1 (- (k * 2)) msgs)) summary]
          @ js_slice_from (- (k * 2)) msgs"
    using long mid ok by (simp add: compressHistory_def Let_def)
  then show ?thesis
    using js_slice_tail [OF kpos] lm hd0 m len
    by (simp add: ack_turn_def summary_turn_def dash_def nl_def)
qed

theorem compressHistory_shape_witness:
  "(0::int) \<le> 2 \<and> 6 \<le> length long_history
   \<and> 4 \<le> length (js_slice 1 (- (2 * 2)) long_history)
   \<and> summarize summarizing_env 4
        (serializeMessages (runtime summarizing_env) (js_slice 1 (- (2 * 2)) long_history))
      = Some (ascii ''Acme SMS: PASS'')
   \<and> compressHistory summarizing_env 4 long_history 2
      = [\<lparr>m_role = User, m_content = Str (ascii ''find an SMS provider'')\<rparr>,
         \<lparr>m_role = Assistant,
          m_content = Str (ascii ''I'' @ [39] @ ascii
            ''ll begin researching this. Let me start by reviewing my progress so far.'')\<rparr>,
         \<lparr>m_role = User,
          m_content = Str (ascii ''[RESEARCH PROGRESS SUMMARY '' @ [8212]
            @ ascii '' compressed from 4 previous exchanges]'' @ [10, 10]
            @ ascii ''Acme SMS: PASS'' @ [10, 10]
            @ ascii ''[END SUMMARY '' @ [8212] @ ascii '' continuing research from here]'')\<rparr>]
        @ read_exchange ''t3'' @ read_exchange ''t4''
   \<and> js_slice 1 (- (2 * 2)) long_history = read_exchange ''t1'' @ read_exchange ''t2''"
proof -
  have len: "length long_history = 9"
    by (simp add: long_history_def read_exchange_def)
  have mid: "length (js_slice 1 (- (2 * 2)) long_history) = 4"
    by (simp add: js_slice_def Let_def len)
  have sum: "summarize summarizing_env 4
        (serializeMessages (runtime summarizing_env) (js_slice 1 (- (2 * 2)) long_history))
      = Some (ascii ''Acme SMS: PASS'')"
    by (simp add: summarizing_env_def)
  have n4: "show_nat 4 = ascii ''4''"
    by (simp add: show_nat.simps ascii_def)
  have hd: "hd long_history = \<lparr>m_role = User, m_content = Str (ascii ''find an SMS provider'')\<rparr>"
    by (simp add: long_history_def)
  have tail: "drop 5 long_history = read_exchange ''t3'' @ read_exchange ''t4''"
    by (simp add: long_history_def read_exchange_def)
  have middle: "take 4 (drop (Suc 0) long_history)
                  = read_exchange ''t1'' @ read_exchange ''t2''"
    by (simp add: long_history_def read_exchange_def)
  show ?thesis
    using compressHistory_shape [of 2 long_history summarizing_env 4 "ascii ''Acme SMS: PASS''"]
      len mid sum
    by (simp add: n4 hd tail middle ascii_join)
qed

section \<open>Properties of the tool gateway\<close>

lemma show_nat_0: "show_nat 0 = [48]"
  by (simp add: show_nat.simps)

lemma hard_report_Nil:
  "hard_report [] = ascii ''Hard criteria: 0/0 '' @ [9989] @ ascii '' ALL PASSED'' @ nl"
  by (simp add: hard_report_def show_nat_0 ascii_def)

text \<open>
  Claim C10. When \<open>evaluate\<close> is called with an empty \<open>hard_criteria\<close> sequence (and a
  verdict), the report it returns has the hard-criteria line
  \<open>Hard criteria: 0/0\<close>, marked \<open>ALL PASSED\<close>, right after its heading, and the
  candidate is recorded with no hard-criterion result.
\<close>

theorem evaluate_empty_hard_all_passed:
  assumes "ti_hard_criteria input = Some []" and "ti_verdict input = Some v"
  shows "\<exists>post. handleEvaluation jsb input cands =
           (Inr (nl @ [55357, 56522] @ ascii '' EVALUATION: '' @ tpl (ti_name input) @ nl
                 @ replicate 50 9472 @ nl
                 @ ascii ''Hard criteria: 0/0 '' @ [9989] @ ascii '' ALL PASSED'' @ nl @ post),
            cands @ [\<lparr>c_name = ti_name input, c_url = ti_url input, c_verdict = Some v,
                       c_hardResults = Some [],
                       c_softScores = (case ti_soft_criteria input of None \<Rightarrow> [] | Some ss \<Rightarrow> ss),
                       c_rejectionReason = ti_rejection_reason input,
                       c_notes = ti_notes input\<rparr>])"
  using assms by (simp add: handleEvaluation_def Let_def hard_report_Nil)

theorem evaluate_empty_hard_all_passed_witness:
  "ti_hard_criteria (acme_pass\<lparr>ti_hard_criteria := Some []\<rparr>) = Some []
   \<and> ti_verdict (acme_pass\<lparr>ti_hard_criteria := Some []\<rparr>) = Some (ascii ''pass'')
   \<and> (\<exists>post. fst (handleEvaluation ascii_runtime (acme_pass\<lparr>ti_hard_criteria := Some []\<rparr>) [])
         = Inr (nl @ [55357, 56522] @ ascii '' EVALUATION: '' @ ascii ''Acme SMS'' @ nl
                @ replicate 50 9472 @ nl
                @ ascii ''Hard criteria: 0/0 '' @ [9989] @ ascii '' ALL PASSED'' @ nl @ post))"
  using evaluate_empty_hard_all_passed [of "acme_pass\<lparr>ti_hard_criteria := Some []\<rparr>"
      "ascii ''pass''" ascii_runtime "[]"]
  by (auto simp: acme_pass_def no_input_def)

text \<open>
  Claim C5 says that every candidate record created by \<open>evaluate\<close> has a verdict among
  \<open>pass\<close>, \<open>fail\<close> and \<open>needs_more_info\<close>. The code does not check the verdict: a call
  with the verdict \<open>partial\<close> (the value that types.ts declares) stores a candidate with
  that verdict.
\<close>

theorem evaluate_unchecked_verdict:
  "map c_verdict (sessionCandidates (snd (executeTool (quiet_env finish_at_once) (ascii ''evaluate'')
       (acme_pass\<lparr>ti_verdict := Some (ascii ''partial'')\<rparr>)
       (initial_state (ascii ''find an SMS provider'')))))
     = [Some (ascii ''partial'')]
   \<and> ascii ''partial'' \<noteq> ascii ''pass'' \<and> ascii ''partial'' \<noteq> ascii ''fail''
   \<and> ascii ''partial'' \<noteq> ascii ''needs_more_info''"
  by (simp add: executeTool_def handleEvaluation_def Let_def initial_state_def acme_pass_def
        no_input_def)

text \<open>
  Claim C5, amended. The candidate record that \<open>evaluate\<close> creates and appends to the
  session's candidates carries the verdict argument of the call as it is; its verdict is
  one of \<open>pass\<close>, \<open>fail\<close> and \<open>needs_more_info\<close> whenever the argument is.
\<close>

theorem evaluate_keeps_verdict:
  "\<exists>c. snd (handleEvaluation jsb input cands) = cands @ [c] \<and> c_verdict c = ti_verdict input
      \<and> (ti_verdict input \<in> {Some (ascii ''pass''), Some (ascii ''fail''),
                               Some (ascii ''needs_more_info'')}
         \<longrightarrow> c_verdict c \<in> {Some (ascii ''pass''), Some (ascii ''fail''),
                              Some (ascii ''needs_more_info'')})"
  by (simp add: handleEvaluation_def Let_def split: option.splits)

theorem evaluate_keeps_verdict_witness:
  "ti_verdict acme_pass \<in> {Some (ascii ''pass''), Some (ascii ''fail''),
                             Some (ascii ''needs_more_info'')}
   \<and> (\<exists>c. snd (handleEvaluation ascii_runtime acme_pass []) = [] @ [c]
          \<and> c_verdict c = ti_verdict acme_pass
          \<and> c_verdict c \<in> {Some (ascii ''pass''), Some (ascii ''fail''),
                             Some (ascii ''needs_more_info'')})"
  using evaluate_keeps_verdict [of ascii_runtime acme_pass "[]"]
  by (simp add: acme_pass_def no_input_def)

section \<open>Properties of the orchestration loop\<close>

subsection \<open>Runs that return\<close>






























lemma quiet_call: "callWithRetry (quiet_env script) it msgs 0 = ([], Inr (script it))"
  by (subst callWithRetry.simps) (simp add: quiet_env_def)

lemma quiet_compress: "compress_due (quiet_env script) it msgs = msgs"
  by (simp add: compress_due_def compressHistory_def Let_def quiet_env_def)

lemma quiet_fields:
  "runtime (quiet_env script) = ascii_runtime"
  "exportToSheets (quiet_env script) session i out = Inr []"
  "date_now (quiet_env script) = 0"
  "iso_now (quiet_env script) = ascii ''2025-01-01T00:00:00.000Z''"
  by (simp_all add: quiet_env_def)






subsection \<open>Failures of the reasoning engine\<close>

lemma callWithRetry_from:
  "a \<le> 4 \<Longrightarrow>
   \<exists>n. a \<le> n \<and> n \<le> 4
     \<and> fst (callWithRetry env it msgs a) = map (\<lambda>j. min (15 * (j + 1)) 60) [a..<n]
     \<and> (\<forall>j. a \<le> j \<and> j < n \<longrightarrow> (\<exists>e. engine env it j msgs = Inl e \<and> error_status e = Some 429))
     \<and> snd (callWithRetry env it msgs a) = engine env it n msgs
     \<and> (n < 4 \<longrightarrow> (\<forall>e. engine env it n msgs = Inl e \<longrightarrow> error_status e \<noteq> Some 429))"
proof (induction "4 - a" arbitrary: a)
  case 0
  then have a: "a = 4" by simp
  have "callWithRetry env it msgs 4 = ([], engine env it 4 msgs)"
    by (subst callWithRetry.simps) (simp split: sum.splits)
  with a show ?case by (intro exI [of _ 4]) auto
next
  case (Suc d)
  then have a: "a < 4" by simp
  show ?case
  proof (cases "\<exists>e. engine env it a msgs = Inl e \<and> error_status e = Some 429")
    case False
    then have "callWithRetry env it msgs a = ([], engine env it a msgs)"
      using a by (subst callWithRetry.simps) (auto split: sum.splits)
    with False a show ?thesis by (intro exI [of _ a]) auto
  next
    case True
    then obtain e where e: "engine env it a msgs = Inl e" "error_status e = Some 429" by blast
    have step: "callWithRetry env it msgs a =
        (min (15 * (a + 1)) 60 # fst (callWithRetry env it msgs (a + 1)),
         snd (callWithRetry env it msgs (a + 1)))"
      using a e by (subst callWithRetry.simps) (simp add: Let_def)
    from Suc.hyps(2) a have "d = 4 - (a + 1)" by simp
    from Suc.hyps(1) [OF this] a obtain n where n: "a + 1 \<le> n" "n \<le> 4"
      "fst (callWithRetry env it msgs (a + 1)) = map (\<lambda>j. min (15 * (j + 1)) 60) [a + 1..<n]"
      "\<forall>j. a + 1 \<le> j \<and> j < n \<longrightarrow> (\<exists>e. engine env it j msgs = Inl e \<and> error_status e = Some 429)"
      "snd (callWithRetry env it msgs (a + 1)) = engine env it n msgs"
      "n < 4 \<longrightarrow> (\<forall>e. engine env it n msgs = Inl e \<longrightarrow> error_status e \<noteq> Some 429)"
      by auto
    have upt: "[a..<n] = a # [a + 1..<n]"
      using n(1) by (simp add: upt_conv_Cons)
    have all: "\<forall>j. a \<le> j \<and> j < n \<longrightarrow> (\<exists>e. engine env it j msgs = Inl e \<and> error_status e = Some 429)"
    proof (intro allI impI)
      fix j assume j: "a \<le> j \<and> j < n"
      show "\<exists>e. engine env it j msgs = Inl e \<and> error_status e = Some 429"
      proof (cases "j = a")
        case True
        with e show ?thesis by blast
      next
        case False
        with j n(4) show ?thesis by simp
      qed
    qed
    show ?thesis
      using n(1,2,3,5,6) all by (intro exI [of _ n]) (simp add: step upt)
  qed
qed

lemma waits_take:
  "n \<le> 4 \<Longrightarrow> map (\<lambda>j. min (15 * (j + 1)) 60) [0..<n] = take n [15, 30, 45, 60::nat]"
proof -
  assume "n \<le> 4"
  then consider "n = 0" | "n = 1" | "n = 2" | "n = 3" | "n = 4" by linarith
  then show ?thesis
    by cases (simp_all add: upt_rec)
qed

lemma iteration_engine_error:
  assumes "snd (callWithRetry env (iterations s + 1)
                  (compress_due env (iterations s + 1) (messages s)) 0) = Inl e"
  shows "iteration env task criteria f s = Return (f, Inl e)"
  using assms by (simp add: iteration_def Let_def)

lemma finish_error_file:
  "finish env task criteria f s content = (f', Inl e)
   \<Longrightarrow> f' = f \<or> (\<exists>session i out. exportToSheets env session i out = Inl e)"
  by (auto simp: finish_def Let_def split: sum.splits)

lemma exhausted_error_file:
  "exhausted env task criteria f s = (f', Inl e)
   \<Longrightarrow> f' = f \<or> (\<exists>session i out. exportToSheets env session i out = Inl e)"
  by (auto simp: exhausted_def Let_def split: sum.splits)

lemma iteration_error_file:
  "iteration env task criteria f s = Return (f', Inl e)
   \<Longrightarrow> f' = f \<or> (\<exists>session i out. exportToSheets env session i out = Inl e)"
  by (auto simp: iteration_def Let_def split: sum.splits if_splits dest: finish_error_file)

lemma agent_loop_error_file:
  "agent_loop env task criteria f s = (f', Inl e)
   \<Longrightarrow> f' = f \<or> (\<exists>session i out. exportToSheets env session i out = Inl e)"
proof (induction env task criteria f s rule: agent_loop.induct)
  case (1 env task criteria f s)
  show ?case
  proof (cases "iterations s < MAX_ITERATIONS")
    case False
    with "1.prems" have "exhausted env task criteria f s = (f', Inl e)"
      by (simp add: agent_loop.simps)
    then show ?thesis by (rule exhausted_error_file)
  next
    case True
    show ?thesis
    proof (cases "iteration env task criteria f s")
      case (Return x)
      with True "1.prems" have "iteration env task criteria f s = Return (f', Inl e)"
        by (simp add: agent_loop.simps)
      then show ?thesis by (rule iteration_error_file)
    next
      case (Continue s')
      with True "1.prems" have "agent_loop env task criteria f s' = (f', Inl e)"
        by (simp add: agent_loop.simps)
      from "1.IH" [OF True Continue this] show ?thesis .
    qed
  qed
qed

text \<open>
  Claim C4. The call of the reasoning engine is attempted at most 5 times per iteration.
  The outcome of the retry loop is the engine's outcome at some attempt \<open>n \<le> 4\<close>: every
  earlier attempt failed with status 429 and was followed by a wait of 15, 30, 45 and 60
  seconds in turn, and attempt \<open>n\<close> is a success, a failure of another kind, or the fifth
  attempt. A failure that is the outcome of the retry loop, in whatever state the loop is,
  ends the run with that error and with the memory file as it was; and a run that ends with
  an error leaves the memory file unchanged, unless the error is the export's, which is
  thrown after the session was saved.
\<close>

theorem engine_failure_handling:
  "(\<exists>n\<le>4. fst (callWithRetry env it msgs 0) = take n [15, 30, 45, 60]
        \<and> (\<forall>j<n. \<exists>e. engine env it j msgs = Inl e \<and> error_status e = Some 429)
        \<and> snd (callWithRetry env it msgs 0) = engine env it n msgs
        \<and> (n < 4 \<longrightarrow> (\<forall>e. engine env it n msgs = Inl e \<longrightarrow> error_status e \<noteq> Some 429)))
   \<and> (iterations s < MAX_ITERATIONS
        \<and> snd (callWithRetry env (iterations s + 1)
                 (compress_due env (iterations s + 1) (messages s)) 0) = Inl err
      \<longrightarrow> agent_loop env task criteria f s = (f, Inl err))
   \<and> (runResearchAgent env f task criteria = (f', Inl err')
      \<longrightarrow> f' = f \<or> (\<exists>session i out. exportToSheets env session i out = Inl err'))"
proof -
  from callWithRetry_from [of 0 env it msgs] obtain n where n: "n \<le> 4"
    "fst (callWithRetry env it msgs 0) = map (\<lambda>j. min (15 * (j + 1)) 60) [0..<n]"
    "\<forall>j. 0 \<le> j \<and> j < n \<longrightarrow> (\<exists>e. engine env it j msgs = Inl e \<and> error_status e = Some 429)"
    "snd (callWithRetry env it msgs 0) = engine env it n msgs"
    "n < 4 \<longrightarrow> (\<forall>e. engine env it n msgs = Inl e \<longrightarrow> error_status e \<noteq> Some 429)"
    by auto
  have A: "\<exists>n\<le>4. fst (callWithRetry env it msgs 0) = take n [15, 30, 45, 60]
        \<and> (\<forall>j<n. \<exists>e. engine env it j msgs = Inl e \<and> error_status e = Some 429)
        \<and> snd (callWithRetry env it msgs 0) = engine env it n msgs
        \<and> (n < 4 \<longrightarrow> (\<forall>e. engine env it n msgs = Inl e \<longrightarrow> error_status e \<noteq> Some 429))"
    using n waits_take [OF n(1)] by (intro exI [of _ n]) simp
  have B: "agent_loop env task criteria f s = (f, Inl err)"
    if "iterations s < MAX_ITERATIONS"
      "snd (callWithRetry env (iterations s + 1)
             (compress_due env (iterations s + 1) (messages s)) 0) = Inl err"
    using that iteration_engine_error [OF that(2)] by (simp add: agent_loop.simps)
  have C: "f' = f \<or> (\<exists>session i out. exportToSheets env session i out = Inl err')"
    if "runResearchAgent env f task criteria = (f', Inl err')"
  proof (cases "getMemoryContext (runtime env) f task None")
    case (Inl x)
    with that show ?thesis by (simp add: runResearchAgent_def)
  next
    case (Inr ctx)
    with that show ?thesis
      by (auto simp: runResearchAgent_def dest: agent_loop_error_file)
  qed
  from A B C show ?thesis by blast
qed

lemma limited_call:
  "callWithRetry limited_env it msgs 0 = ([15, 30, 45, 60], Inl rate_limited)"
  by (simp add: callWithRetry.simps limited_env_def rate_limited_def Let_def)

theorem engine_failure_handling_witness:
  "iterations (initial_state (ascii ''find an SMS provider'')) < MAX_ITERATIONS
   \<and> callWithRetry limited_env 1
        (compress_due limited_env 1 (messages (initial_state (ascii ''find an SMS provider'')))) 0
      = ([15, 30, 45, 60], Inl rate_limited)
   \<and> agent_loop limited_env (ascii ''find an SMS provider'') sms_criteria None
        (initial_state (ascii ''find an SMS provider'')) = (None, Inl rate_limited)
   \<and> runResearchAgent limited_env None (ascii ''find an SMS provider'') sms_criteria
      = (None, Inl rate_limited)"
proof -
  let ?task = "ascii ''find an SMS provider''"
  have i0: "iterations (initial_state ?task) < MAX_ITERATIONS"
    by (simp add: initial_state_def MAX_ITERATIONS_def)
  have call: "callWithRetry limited_env 1
        (compress_due limited_env 1 (messages (initial_state ?task))) 0
      = ([15, 30, 45, 60], Inl rate_limited)"
    by (rule limited_call)
  have failed: "snd (callWithRetry limited_env (iterations (initial_state ?task) + 1)
        (compress_due limited_env (iterations (initial_state ?task) + 1)
           (messages (initial_state ?task))) 0) = Inl rate_limited"
    by (simp add: limited_call)
  have loop: "agent_loop limited_env ?task sms_criteria None (initial_state ?task)
                = (None, Inl rate_limited)"
    using engine_failure_handling [of limited_env 1 "[]" "initial_state ?task" rate_limited
        ?task sms_criteria None None rate_limited] i0 failed
    by simp
  have ctx: "getMemoryContext (runtime limited_env) None ?task None
               = Inr (ascii ''No prior research history.'')"
    by (simp add: getMemoryContext_def loadMemory_def)
  from i0 call loop ctx show ?thesis by (simp add: runResearchAgent_def)
qed

subsection \<open>A failed tool call followed by a finish\<close>

text \<open>
  Inside the tool loop a failure is contained: the failed call is answered by an
  error-flagged result and the remaining calls are executed.
\<close>

lemma failed_call_is_flagged:
  assumes "fst (executeTool env name input (s\<lparr>toolCallCount := toolCallCount s + 1\<rparr>)) = Inl e"
  shows "fst (run_tools env (ToolUseBlock i name input # bs) s)
           = ToolResultBlock i (ascii ''Error: '' @ error_message e) True
             # fst (run_tools env bs
                      (snd (executeTool env name input (s\<lparr>toolCallCount := toolCallCount s + 1\<rparr>))))"
  using assms by (simp add: Let_def)

lemma malformed_step1:
  "iteration (quiet_env malformed_then_finish) task criteria f (initial_state task) =
     Continue \<lparr>sessionCandidates = [malformed_candidate], sessionQueries = [],
       messages = [\<lparr>m_role = User, m_content = Str task\<rparr>,
                   \<lparr>m_role = Assistant, m_content = Blocks
                      [ToolUseBlock (ascii ''t1'') (ascii ''evaluate'') acme_malformed]\<rparr>,
                   \<lparr>m_role = User, m_content = Blocks
                      [ToolResultBlock (ascii ''t1'')
                         (ascii ''Error: '' @ error_message (cannot_read ''filter'')) True]\<rparr>],
       iterations = 1, toolCallCount = 1, totalInputTokens = 0, totalOutputTokens = 0\<rparr>"
  by (simp add: iteration_def quiet_call quiet_compress Let_def initial_state_def
        malformed_then_finish_def executeTool_def handleEvaluation_def acme_malformed_def
        no_input_def malformed_candidate_def acme_candidate_def)

lemma malformed_step2:
  "sessionCandidates s = [malformed_candidate] \<Longrightarrow> iterations s = 1 \<Longrightarrow>
   iteration (quiet_env malformed_then_finish) task criteria f s =
     Return (f, Inl (TypeError (ascii ''candidate.hardResults is not iterable'')))"
  by (simp add: iteration_def quiet_call quiet_compress Let_def
        malformed_then_finish_def finish_def saveSession_def upsert_candidate_def
        malformed_candidate_def acme_candidate_def quiet_fields acme_key acme_own
      split: option.splits)

text \<open>
  Claim C3 says that a failing tool call never aborts the session and that a later finish
  still completes it. Here the engine first calls \<open>evaluate\<close> without \<open>hard_criteria\<close>
  and then finishes. The call fails and is answered by an error-flagged result, but its
  candidate has already been pushed; at the finish \<open>saveSession\<close> throws on that
  candidate, the run ends with the TypeError and nothing is persisted.
\<close>

theorem malformed_evaluate_aborts_finish:
  "runResearchAgent (quiet_env malformed_then_finish) None (ascii ''find an SMS provider'')
     sms_criteria
   = (None, Inl (TypeError (ascii ''candidate.hardResults is not iterable'')))
   \<and> fst (run_tools (quiet_env malformed_then_finish)
            [ToolUseBlock (ascii ''t1'') (ascii ''evaluate'') acme_malformed]
            (initial_state (ascii ''find an SMS provider'')))
     = [ToolResultBlock (ascii ''t1'')
          (ascii ''Error: '' @ error_message (cannot_read ''filter'')) True]"
proof -
  let ?E = "quiet_env malformed_then_finish"
  let ?task = "ascii ''find an SMS provider''"
  have ctx: "getMemoryContext (runtime ?E) None ?task None
               = Inr (ascii ''No prior research history.'')"
    by (simp add: getMemoryContext_def loadMemory_def)
  have loop: "agent_loop ?E ?task sms_criteria None (initial_state ?task)
                = (None, Inl (TypeError (ascii ''candidate.hardResults is not iterable'')))"
  proof -
    have i0: "iterations (initial_state ?task) < MAX_ITERATIONS"
      by (simp add: initial_state_def MAX_ITERATIONS_def)
    show ?thesis
      by (subst agent_loop.simps, simp only: i0 if_True malformed_step1 step.case,
          subst agent_loop.simps, simp add: malformed_step2 MAX_ITERATIONS_def)
  qed
  have tools: "fst (run_tools ?E [ToolUseBlock (ascii ''t1'') (ascii ''evaluate'') acme_malformed]
                      (initial_state ?task))
     = [ToolResultBlock (ascii ''t1'')
          (ascii ''Error: '' @ error_message (cannot_read ''filter'')) True]"
    by (simp add: Let_def executeTool_def handleEvaluation_def acme_malformed_def no_input_def)
  from ctx loop tools show ?thesis by (simp add: runResearchAgent_def)
qed

subsection \<open>A run that reaches the cap\<close>

text \<open>
  The session persisted by the finishing path does carry the best match of its candidates.
\<close>

lemma last_saved_session:
  assumes "saveSession js session f = Inr (Some store')"
  shows "last (sessions store') = session"
proof -
  let ?ss = "sessions (loadMemory f) @ [session]"
  have "js_slice_from (- 50) ?ss = drop (length ?ss - 50) ?ss"
    using js_slice_from_last [of 50 ?ss] by simp
  moreover have "length ?ss > 50 \<Longrightarrow> last (drop (length ?ss - 50) ?ss) = session"
    by (subst last_drop) simp_all
  ultimately have "last (if length ?ss > 50 then js_slice_from (- 50) ?ss else ?ss) = session"
    by simp
  with assms show ?thesis
    by (auto simp: saveSession_def Let_def saveMemory_def split: sum.splits)
qed

lemma finished_session_bestMatch:
  assumes "finish env task criteria f s content = (Some store', Inr r)"
  shows "s_bestMatch (last (sessions store')) = bestMatch (s_candidates (last (sessions store')))"
proof -
  let ?session = "\<lparr>s_id = ascii ''session_'' @ show_nat (date_now env),
       s_timestamp = iso_now env, s_task = task, s_criteria = criteria,
       s_candidates = sessionCandidates s, s_bestMatch = bestMatch (sessionCandidates s),
       s_searchQueries = sessionQueries s,
       s_conclusion = js_slice 0 500 (join nl (block_texts content))\<rparr>"
  from assms have "saveSession (runtime env) ?session f = Inr (Some store')"
    by (auto simp: finish_def Let_def split: sum.splits)
  then have "last (sessions store') = ?session" by (rule last_saved_session)
  then show ?thesis by simp
qed

lemma saveSession_sessions:
  assumes "list_all (storable js) (s_candidates session)"
  shows "\<exists>store'. saveSession js session None = Inr (Some store')
           \<and> sessions store' = [session]"
proof -
  from upsert_all_effect [OF assms] obtain ks' where
    "upsert_all js (s_timestamp session) (knownServices (loadMemory None)) (s_candidates session)
       = Inr ks'"
    by blast
  then show ?thesis by (simp add: saveSession_def Let_def saveMemory_def loadMemory_def)
qed

lemma pass_step1:
  "\<exists>s'. iteration (quiet_env pass_then_search) task criteria f (initial_state task) = Continue s'
        \<and> sessionCandidates s' = [acme_candidate] \<and> iterations s' = 1"
  by (simp add: iteration_def quiet_call quiet_compress Let_def initial_state_def
        pass_then_search_def executeTool_def handleEvaluation_def acme_pass_def
        no_input_def acme_candidate_def)

lemma pass_step:
  "sessionCandidates s = [acme_candidate] \<Longrightarrow> 1 \<le> iterations s \<Longrightarrow>
   \<exists>s'. iteration (quiet_env pass_then_search) task criteria f s = Continue s'
        \<and> sessionCandidates s' = [acme_candidate] \<and> iterations s' = iterations s + 1"
  by (simp add: iteration_def quiet_call quiet_compress Let_def
        pass_then_search_def executeTool_def)

lemma pass_exhausted:
  assumes "sessionCandidates s = [acme_candidate]"
  shows "\<exists>store r. exhausted (quiet_env pass_then_search) task criteria None s
                      = (Some store, Inr r)
           \<and> res_iterations r = iterations s
           \<and> s_candidates (last (sessions store)) = [acme_candidate]
           \<and> s_bestMatch (last (sessions store)) = None"
proof -
  let ?E = "quiet_env pass_then_search"
  let ?session = "\<lparr>s_id = ascii ''session_'' @ show_nat (date_now ?E),
       s_timestamp = iso_now ?E, s_task = task, s_criteria = criteria,
       s_candidates = sessionCandidates s, s_bestMatch = None,
       s_searchQueries = sessionQueries s,
       s_conclusion = ascii ''Reached max iterations ('' @ show_nat MAX_ITERATIONS
         @ ascii ''). Evaluated '' @ show_nat (length (sessionCandidates s))
         @ ascii '' candidates.''\<rparr>"
  have "list_all (storable (runtime ?E)) (s_candidates ?session)"
    using assms by (simp add: acme_storable quiet_fields)
  from saveSession_sessions [OF this] obtain store' where
    "saveSession (runtime ?E) ?session None = Inr (Some store')" "sessions store' = [?session]"
    by blast
  moreover have "exportToSheets ?E ?session (totalInputTokens s) (totalOutputTokens s) = Inr []"
    by (simp add: quiet_env_def)
  ultimately show ?thesis
    using assms by (simp add: exhausted_def Let_def)
qed

lemma pass_loop:
  "sessionCandidates s = [acme_candidate] \<Longrightarrow> 1 \<le> iterations s
   \<Longrightarrow> iterations s \<le> MAX_ITERATIONS
   \<Longrightarrow> \<exists>store r. agent_loop (quiet_env pass_then_search) task criteria None s
                    = (Some store, Inr r)
         \<and> res_iterations r = MAX_ITERATIONS
         \<and> s_candidates (last (sessions store)) = [acme_candidate]
         \<and> s_bestMatch (last (sessions store)) = None"
proof (induction "quiet_env pass_then_search" task criteria "None :: memory_file" s
       rule: agent_loop.induct)
  case (1 task criteria s)
  show ?case
  proof (cases "iterations s < MAX_ITERATIONS")
    case False
    with "1.prems" have "iterations s = MAX_ITERATIONS" by simp
    with pass_exhausted [OF "1.prems"(1), of task criteria] False show ?thesis
      by (subst agent_loop.simps) auto
  next
    case True
    from pass_step [OF "1.prems"(1,2), of task criteria None] obtain s' where
      s': "iteration (quiet_env pass_then_search) task criteria None s = Continue s'"
      "sessionCandidates s' = [acme_candidate]" "iterations s' = iterations s + 1"
      by blast
    from "1.hyps" [OF True s'(1) s'(2)] s'(3) True
    have "\<exists>store r. agent_loop (quiet_env pass_then_search) task criteria None s'
                    = (Some store, Inr r)
         \<and> res_iterations r = MAX_ITERATIONS
         \<and> s_candidates (last (sessions store)) = [acme_candidate]
         \<and> s_bestMatch (last (sessions store)) = None"
      by simp
    with True s'(1) show ?thesis
      by (subst agent_loop.simps) simp
  qed
qed

lemma exhausted_run:
  "\<exists>store r. runResearchAgent (quiet_env pass_then_search) None
                (ascii ''find an SMS provider'') sms_criteria = (Some store, Inr r)
     \<and> res_iterations r = 10
     \<and> s_candidates (last (sessions store)) = [acme_candidate]
     \<and> s_bestMatch (last (sessions store)) = None"
proof -
  let ?E = "quiet_env pass_then_search"
  let ?task = "ascii ''find an SMS provider''"
  have ctx: "getMemoryContext (runtime ?E) None ?task None
               = Inr (ascii ''No prior research history.'')"
    by (simp add: getMemoryContext_def loadMemory_def)
  from pass_step1 [of ?task sms_criteria None] obtain s1 where
    s1: "iteration ?E ?task sms_criteria None (initial_state ?task) = Continue s1"
    "sessionCandidates s1 = [acme_candidate]" "iterations s1 = 1"
    by blast
  have i0: "iterations (initial_state ?task) < MAX_ITERATIONS"
    by (simp add: initial_state_def MAX_ITERATIONS_def)
  have "agent_loop ?E ?task sms_criteria None (initial_state ?task)
          = agent_loop ?E ?task sms_criteria None s1"
    by (subst agent_loop.simps) (simp only: i0 if_True s1(1) step.case)
  moreover from pass_loop [OF s1(2), of ?task sms_criteria] s1(3)
  obtain store r where
    "agent_loop ?E ?task sms_criteria None s1 = (Some store, Inr r)"
    "res_iterations r = MAX_ITERATIONS"
    "s_candidates (last (sessions store)) = [acme_candidate]"
    "s_bestMatch (last (sessions store)) = None"
    by (auto simp: MAX_ITERATIONS_def)
  ultimately show ?thesis
    using ctx by (simp add: runResearchAgent_def MAX_ITERATIONS_def)
qed

text \<open>
  Claim C1 says that the session persisted at the end of a run, finished or exhausted, has
  \<open>bestMatch\<close> equal to the name of its first candidate of verdict \<open>pass\<close>. Here the engine
  evaluates a candidate with the verdict \<open>pass\<close> and then searches until the cap: the run
  returns after 10 iterations, and the session it persisted holds the passing candidate but
  no \<open>bestMatch\<close>, which only the finishing path computes.
\<close>

theorem exhausted_run_drops_bestMatch:
  "\<exists>store r. runResearchAgent (quiet_env pass_then_search) None
                (ascii ''find an SMS provider'') sms_criteria = (Some store, Inr r)
     \<and> res_iterations r = 10
     \<and> s_candidates (last (sessions store)) = [acme_candidate]
     \<and> bestMatch (s_candidates (last (sessions store))) = Some (ascii ''Acme SMS'')
     \<and> s_bestMatch (last (sessions store)) = None"
proof -
  from exhausted_run obtain store r where
    "runResearchAgent (quiet_env pass_then_search) None
       (ascii ''find an SMS provider'') sms_criteria = (Some store, Inr r)"
    "res_iterations r = 10"
    "s_candidates (last (sessions store)) = [acme_candidate]"
    "s_bestMatch (last (sessions store)) = None"
    by blast
  moreover have "bestMatch [acme_candidate] = Some (ascii ''Acme SMS'')"
    by (simp add: bestMatch_def acme_candidate_def)
  ultimately show ?thesis by simp
qed


end
